theory Spec2Isabelle
  imports Complex_Main "HOL-Library.Word"
begin

section \<open>JavaScript values\<close>

text \<open>
  A JavaScript string is a sequence of UTF-16 code units. \<open>js\<close> embeds an ASCII
  literal; text outside ASCII is written as code units (the label prefix of the Excel
  reader below).
\<close>

type_synonym jschar = "16 word"
type_synonym jsstring = "jschar list"

definition js :: "string \<Rightarrow> jsstring" where
  "js s = map of_char s"

text \<open>
  \<open>String.prototype.trim\<close> removes WhiteSpace and LineTerminator code points from
  both ends: TAB, LF, VT, FF, CR, SP, NBSP, U+1680, U+2000..U+200A, U+2028, U+2029,
  U+202F, U+205F, U+3000 and U+FEFF.
\<close>

definition is_ws :: "jschar \<Rightarrow> bool" where
  "is_ws c = (c = 0x9 \<or> c = 0xA \<or> c = 0xB \<or> c = 0xC \<or> c = 0xD \<or> c = 0x20 \<or> c = 0xA0
     \<or> c = 0x1680 \<or> (0x2000 \<le> c \<and> c \<le> 0x200A) \<or> c = 0x2028 \<or> c = 0x2029
     \<or> c = 0x202F \<or> c = 0x205F \<or> c = 0x3000 \<or> c = 0xFEFF)"

definition trim :: "jsstring \<Rightarrow> jsstring" where
  "trim s = rev (dropWhile is_ws (rev (dropWhile is_ws s)))"

text \<open>
  \<open>s.split(sep)\<close> for a one-character separator: the pieces between the separators,
  one piece more than there are separators (\<open>''''.split(sep)\<close> is \<open>['''']\<close>).
\<close>

fun split :: "'a \<Rightarrow> 'a list \<Rightarrow> 'a list list" where
  "split sep [] = [[]]"
| "split sep (c # cs) =
     (if c = sep then [] # split sep cs
      else (case split sep cs of [] \<Rightarrow> [[c]] | piece # pieces \<Rightarrow> (c # piece) # pieces))"

text \<open>\<open>xs.slice(a, b)\<close> for \<open>0 \<le> a \<le> b\<close>: the elements at the indices \<open>a \<le> i < b\<close> that exist.\<close>

definition slice_array :: "nat \<Rightarrow> nat \<Rightarrow> 'a list \<Rightarrow> 'a list" where
  "slice_array a b xs = drop a (take b xs)"

text \<open>\<open>xs[i]\<close> is \<open>undefined\<close> (here \<open>None\<close>) outside the array.\<close>

definition at_index :: "'a list \<Rightarrow> nat \<Rightarrow> 'a option" where
  "at_index xs i = (if i < length xs then Some (xs ! i) else None)"

text \<open>\<open>v || ''''\<close> for a string or \<open>undefined\<close>: the empty string is falsy as well.\<close>

definition or_empty :: "jsstring option \<Rightarrow> jsstring" where
  "or_empty v = (case v of None \<Rightarrow> [] | Some s \<Rightarrow> (if s = [] then [] else s))"

text \<open>
  The decimal text of a natural number: what \<open>Number.prototype.toString\<close> and string
  concatenation give for the integers the code formats (column numbers, \<open>Date.now()\<close>,
  \<open>Math.round(Math.random() * 1E9)\<close>).
\<close>

fun decimal :: "nat \<Rightarrow> jsstring" where
  "decimal n = (if n < 10 then [of_nat (48 + n)] else decimal (n div 10) @ [of_nat (48 + n mod 10)])"

declare decimal.simps [simp del]

subsection \<open>Row objects\<close>

text \<open>
  A preview row is a plain object \<open>{}\<close> whose properties are set by
  \<open>rowData[header] = value\<close> with string values. Its own properties are a map from
  keys to strings. One key is not stored: \<open>__proto__\<close> resolves to the accessor that
  \<open>Object.prototype\<close> provides, and its setter ignores a value that is neither an
  object nor \<open>null\<close>, so assigning a string under that key creates no own property.
\<close>

type_synonym row_data = "jsstring \<rightharpoonup> jsstring"

definition set_prop :: "row_data \<Rightarrow> jsstring \<Rightarrow> jsstring \<Rightarrow> row_data" where
  "set_prop rowData key v = (if key = js ''__proto__'' then rowData else rowData(key \<mapsto> v))"

text \<open>
  \<open>headers.forEach((header, index) => { rowData[header] = cell index; })\<close> on a fresh
  object, for a given way to read the cell at an index.
\<close>

definition fill_row :: "jsstring list \<Rightarrow> (nat \<Rightarrow> jsstring) \<Rightarrow> row_data" where
  "fill_row headers cell =
     fold (\<lambda>(header, index) rowData. set_prop rowData header (cell index))
       (zip headers [0..<length headers]) Map.empty"

section \<open>Tabular reader: CSV\<close>

text \<open>
  The CSV branch of \<open>router.post('/upload')\<close>:
  \<^verbatim>\<open>
  const lines = csvData.split('\n').filter(line => line.trim());
  if (lines.length > 0) {
    headers = lines[0].split(',').map(h => h.trim());
    previewData = lines.slice(1, 21).map(line => {
      const values = line.split(',').map(v => v.trim());
      const rowData = {};
      headers.forEach((header, index) => { rowData[header] = values[index] || ''; });
      return rowData;
    });
  }
  \<close>
\<close>

definition csv_lines :: "jsstring \<Rightarrow> jsstring list" where
  "csv_lines csvData = filter (\<lambda>line. trim line \<noteq> []) (split 0x0A csvData)"

definition csv_cells :: "jsstring \<Rightarrow> jsstring list" where
  "csv_cells line = map trim (split 0x2C line)"

definition csv_row :: "jsstring list \<Rightarrow> jsstring \<Rightarrow> row_data" where
  "csv_row headers line =
     (let values = csv_cells line
      in fill_row headers (\<lambda>index. or_empty (at_index values index)))"

definition csv_preview :: "jsstring \<Rightarrow> jsstring list \<times> row_data list" where
  "csv_preview csvData =
     (let lines = csv_lines csvData
      in if length lines > 0
         then (let headers = csv_cells (hd lines)
               in (headers, map (csv_row headers) (slice_array 1 21 lines)))
         else ([], []))"

section \<open>Tabular reader: Excel\<close>

text \<open>
  A cell value as exceljs hands it to the route: \<open>null\<close> for a cell without a value,
  a number, a string, a boolean, or an object (a date, a formula with its result, rich
  text, a hyperlink, an error value). Of an object only the text that its
  \<open>toString()\<close> returns matters to the route, so \<open>CellObject\<close> carries that text.
\<close>

datatype cell_value =
    CellNull
  | CellNumber real
  | CellString jsstring
  | CellBoolean bool
  | CellObject jsstring

text \<open>
  A row is the list of its cells, column 1 first; a worksheet is the list of its rows,
  row 1 first, so that \<open>worksheet.rowCount\<close> is its length. \<open>getRow\<close> and
  \<open>getCell\<close> create an empty row or cell when asked for one past the end.
\<close>

type_synonym worksheet = "cell_value list list"

definition rowCount :: "worksheet \<Rightarrow> nat" where
  "rowCount ws = length ws"

definition getRow :: "worksheet \<Rightarrow> nat \<Rightarrow> cell_value list" where
  "getRow ws rowNumber =
     (if 1 \<le> rowNumber \<and> rowNumber \<le> length ws then ws ! (rowNumber - 1) else [])"

definition getCell :: "cell_value list \<Rightarrow> nat \<Rightarrow> cell_value" where
  "getCell row colNumber =
     (if 1 \<le> colNumber \<and> colNumber \<le> length row then row ! (colNumber - 1) else CellNull)"

text \<open>
  \<open>row.eachCell(callback)\<close>, called as the route calls it, without
  \<open>{ includeEmpty: true }\<close>: exceljs documents it as iterating over the non-null
  cells of the row, in column order, and passing the cell and its column number.
\<close>

definition eachCell :: "cell_value list \<Rightarrow> (cell_value \<times> nat) list" where
  "eachCell row = filter (\<lambda>(cell, colNumber). cell \<noteq> CellNull) (zip row [1..<Suc (length row)])"

text \<open>The truth value of \<open>cell.value\<close> in \<open>cell.value ? \<dots> : \<dots>\<close>.\<close>

fun truthy :: "cell_value \<Rightarrow> bool" where
  "truthy CellNull = False"
| "truthy (CellNumber x) = (x \<noteq> 0)"
| "truthy (CellString s) = (s \<noteq> [])"
| "truthy (CellBoolean b) = b"
| "truthy (CellObject s) = True"

text \<open>
  \<open>cell.value.toString()\<close> for a value that is not \<open>null\<close>; the text of a number is
  the host's (\<open>Number.prototype.toString\<close>), passed as \<open>numberText\<close>.
\<close>

fun cell_toString :: "(real \<Rightarrow> jsstring) \<Rightarrow> cell_value \<Rightarrow> jsstring" where
  "cell_toString numberText CellNull = []"
| "cell_toString numberText (CellNumber x) = numberText x"
| "cell_toString numberText (CellString s) = s"
| "cell_toString numberText (CellBoolean b) = (if b then js ''true'' else js ''false'')"
| "cell_toString numberText (CellObject s) = s"

text \<open>The synthetic header label: U+CEEC U+B7FC followed by the column number.\<close>

definition column_label :: "nat \<Rightarrow> jsstring" where
  "column_label colNumber = [0xCEEC, 0xB7FC] @ decimal colNumber"

text \<open>
  The Excel branch of \<open>router.post('/upload')\<close>, for the first worksheet when the
  workbook has one:
  \<^verbatim>\<open>
  const firstRow = worksheet.getRow(1);
  headers = [];
  firstRow.eachCell((cell, colNumber) => {
    headers.push(cell.value ? cell.value.toString() : `<label>${colNumber}`);
  });
  for (let rowNumber = 2; rowNumber <= Math.min(21, worksheet.rowCount); rowNumber++) {
    const row = worksheet.getRow(rowNumber);
    const rowData = {};
    headers.forEach((header, index) => {
      const cell = row.getCell(index + 1);
      rowData[header] = cell.value ? cell.value.toString() : '';
    });
    previewData.push(rowData);
  }
  \<close>
\<close>

definition excel_headers :: "(real \<Rightarrow> jsstring) \<Rightarrow> cell_value list \<Rightarrow> jsstring list" where
  "excel_headers numberText firstRow =
     map (\<lambda>(cell, colNumber).
            if truthy cell then cell_toString numberText cell else column_label colNumber)
       (eachCell firstRow)"

definition excel_row :: "(real \<Rightarrow> jsstring) \<Rightarrow> jsstring list \<Rightarrow> cell_value list \<Rightarrow> row_data" where
  "excel_row numberText headers row =
     fill_row headers
       (\<lambda>index. let cell = getCell row (index + 1)
                in if truthy cell then cell_toString numberText cell else [])"

definition excel_preview ::
  "(real \<Rightarrow> jsstring) \<Rightarrow> worksheet option \<Rightarrow> jsstring list \<times> row_data list" where
  "excel_preview numberText worksheet =
     (case worksheet of
        None \<Rightarrow> ([], [])
      | Some ws \<Rightarrow>
          (let headers = excel_headers numberText (getRow ws 1)
           in (headers,
               map (\<lambda>rowNumber. excel_row numberText headers (getRow ws rowNumber))
                 [2..<Suc (min 21 (rowCount ws))])))"

section \<open>Errors, JSON values and the file system\<close>

text \<open>What a call can throw. A thrown error ends the handler's \<open>try\<close> block.\<close>

datatype js_error =
    MulterError jsstring
  | UnsupportedFileType
  | FsError jsstring jsstring
  | TypeError
  | SyntaxError
  | LibraryError jsstring

text \<open>
  \<open>MulterError code\<close> is multer's error with its \<open>code\<close>; \<open>UnsupportedFileType\<close> is
  the \<open>Error\<close> that the \<open>fileFilter\<close> of server.js creates; \<open>FsError code path\<close> is
  thrown by \<open>fs\<close>; \<open>TypeError\<close> by \<open>path.join\<close> on an argument that is not a
  string, by destructuring \<open>undefined\<close> and by a template literal on an object without
  a string form; \<open>SyntaxError\<close> by \<open>JSON.parse\<close>; \<open>LibraryError\<close> by exceljs and by
  the converter.
\<close>

text \<open>
  A value of a JSON request body, and \<open>undefined\<close> for a property that is absent. An
  object lists its own properties in their order, every key once.
\<close>

datatype jsval =
    JUndefined
  | JNull
  | JBool bool
  | JNum real
  | JStr jsstring
  | JArr "jsval list"
  | JObj "(jsstring \<times> jsval) list"

text \<open>
  \<open>body.key\<close>, as destructuring \<open>const { key } = body\<close> reads it, for a key that
  \<open>Object.prototype\<close> and \<open>Array.prototype\<close> do not define (the routes read
  \<open>mappingName\<close>, \<open>sourceFields\<close>, \<open>targetFields\<close>, \<open>mappingRules\<close>, \<open>fileId\<close> and
  \<open>mappingId\<close>, the stored definition has \<open>name\<close>, \<open>createdAt\<close> and \<open>rules\<close>).
\<close>

fun get_prop :: "jsval \<Rightarrow> jsstring \<Rightarrow> jsval" where
  "get_prop (JObj props) key = (case map_of props key of None \<Rightarrow> JUndefined | Some v \<Rightarrow> v)"
| "get_prop v key = JUndefined"

text \<open>\<open>Array.prototype.join\<close> on strings.\<close>

fun join_with :: "jsstring \<Rightarrow> jsstring list \<Rightarrow> jsstring" where
  "join_with sep [] = []"
| "join_with sep [s] = s"
| "join_with sep (s # t # ts) = s @ sep @ join_with sep (t # ts)"

text \<open>The results of a loop that stops at the first error thrown.\<close>

fun collect :: "('e + 'a) list \<Rightarrow> 'e + 'a list" where
  "collect [] = Inr []"
| "collect (Inl error # rs) = Inl error"
| "collect (Inr x # rs) = (case collect rs of Inl error \<Rightarrow> Inl error | Inr xs \<Rightarrow> Inr (x # xs))"

text \<open>
  The string a template literal \<open>`${v}`\<close> makes of a value (ToString). An array joins
  its elements with commas (\<open>Array.prototype.toString\<close> calls \<open>join\<close>), \<open>null\<close> and
  \<open>undefined\<close> elements as empty strings, the others by ToString again. An object goes
  through OrdinaryToPrimitive, which looks up the method \<open>toString\<close> first, then
  \<open>valueOf\<close>. Without an own property \<open>toString\<close> the method is
  \<open>Object.prototype.toString\<close> and the text is \<open>[object Object]\<close>. An own property
  \<open>toString\<close> of an object read from JSON is never callable; \<open>valueOf\<close> is then either
  an own property, not callable as well, or \<open>Object.prototype.valueOf\<close>, which returns
  the object itself: no primitive is found and a \<open>TypeError\<close> is thrown.
\<close>

fun to_string :: "(real \<Rightarrow> jsstring) \<Rightarrow> jsval \<Rightarrow> js_error + jsstring" where
  "to_string numberText JUndefined = Inr (js ''undefined'')"
| "to_string numberText JNull = Inr (js ''null'')"
| "to_string numberText (JBool b) = Inr (if b then js ''true'' else js ''false'')"
| "to_string numberText (JNum x) = Inr (numberText x)"
| "to_string numberText (JStr s) = Inr s"
| "to_string numberText (JArr vs) =
     (case collect (map (\<lambda>v. if v = JUndefined \<or> v = JNull then Inr []
                                else to_string numberText v) vs) of
        Inl error \<Rightarrow> Inl error
      | Inr texts \<Rightarrow> Inr (join_with (js '','') texts))"
| "to_string numberText (JObj props) =
     (if map_of props (js ''toString'') = None then Inr (js ''[object Object]'')
      else Inl TypeError)"



text \<open>
  The file system: the regular files with their content, the directories, and the
  paths at which the host refuses to create or write a file or directory (a missing
  parent directory, missing permissions, a full or read-only device).
\<close>

record filesystem =
  files :: "jsstring \<rightharpoonup> jsstring"
  dirs :: "jsstring set"
  denied :: "jsstring set"

definition existsSync :: "filesystem \<Rightarrow> jsstring \<Rightarrow> bool" where
  "existsSync fs p = (p \<in> dom (files fs) \<or> p \<in> dirs fs)"

definition readFileSync :: "filesystem \<Rightarrow> jsstring \<Rightarrow> js_error + jsstring" where
  "readFileSync fs p =
     (case files fs p of
        Some data \<Rightarrow> Inr data
      | None \<Rightarrow> Inl (FsError (if p \<in> dirs fs then js ''EISDIR'' else js ''ENOENT'') p))"

definition writeFileSync :: "filesystem \<Rightarrow> jsstring \<Rightarrow> jsstring \<Rightarrow> js_error + filesystem" where
  "writeFileSync fs p data =
     (if p \<in> dirs fs then Inl (FsError (js ''EISDIR'') p)
      else if p \<in> denied fs then Inl (FsError (js ''EACCES'') p)
      else Inr (fs\<lparr>files := (files fs)(p \<mapsto> data)\<rparr>))"

text \<open>\<open>fs.mkdirSync(p, { recursive: true })\<close>.\<close>

definition mkdirSync :: "filesystem \<Rightarrow> jsstring \<Rightarrow> js_error + filesystem" where
  "mkdirSync fs p =
     (if p \<in> dom (files fs) then Inl (FsError (js ''EEXIST'') p)
      else if p \<in> denied fs then Inl (FsError (js ''EACCES'') p)
      else Inr (fs\<lparr>dirs := insert p (dirs fs)\<rparr>))"

section \<open>The host and the modules outside the sources\<close>

text \<open>
  A conversion result as \<open>router.post('/generate')\<close> reads it: \<open>result.fileName\<close>,
  \<open>result.processedRows\<close> and \<open>result.errors\<close>, an error being a 1-based row index
  with its reason.
\<close>

record conversion_result =
  resultFileName :: jsstring
  processedRows :: nat
  errors :: "(nat \<times> jsstring) list"

text \<open>
  What the routes call and the sources do not contain: Node's \<open>path\<close> module,
  \<open>String.prototype.toLowerCase\<close>, \<open>Number.prototype.toString\<close>, \<open>JSON\<close>
  (\<open>JSON_stringify v\<close> is \<open>JSON.stringify(v, null, 2)\<close>), the workbook reader of exceljs
  (\<open>workbook.xlsx.readFile\<close> followed by \<open>getWorksheet(1)\<close>, on the content of the
  file), the dot-file policy of express (\<open>send_refuses p\<close>: \<open>res.download\<close> does not
  send the file at the path \<open>p\<close> because of a name that begins with a dot), and the
  repository's modules utils/validation and utils/converter. \<open>production\<close> is
  \<open>process.env.NODE_ENV === 'production'\<close> and \<open>dirname\<close> is \<open>__dirname\<close> of the
  router module. The converter reads and writes files, so it takes the file system and
  returns it, with its result or with the error it throws.
\<close>

record 'v host =
  production :: bool
  dirname :: jsstring
  path_join :: "jsstring list \<Rightarrow> jsstring"
  path_extname :: "jsstring \<Rightarrow> jsstring"
  toLowerCase :: "jsstring \<Rightarrow> jsstring"
  numberText :: "real \<Rightarrow> jsstring"
  JSON_stringify :: "jsval \<Rightarrow> jsstring"
  JSON_parse :: "jsstring \<Rightarrow> js_error + jsval"
  xlsx_readFile :: "jsstring \<Rightarrow> js_error + worksheet option"
  send_refuses :: "jsstring \<Rightarrow> bool"
  validateOrderData :: "row_data list \<Rightarrow> jsstring list \<Rightarrow> 'v"
  convertToStandardFormat ::
    "filesystem \<Rightarrow> jsstring \<Rightarrow> jsstring \<Rightarrow> jsval \<Rightarrow> (js_error + conversion_result) \<times> filesystem"

text \<open>
  Modelled from the spec: \<open>validateOrderData\<close> (utils/validation is not among the
  sources) is a total function of the preview rows and the headers, since the
  Validator never fails with an error condition and is a pure function of its arguments.
\<close>

text \<open>
  The directories of the router module (the second module of server.js; part_000 is
  an earlier version of it, the branch with \<open>production\<close> false, whose storage
  writes to the relative path \<open>uploads/\<close>):
  \<^verbatim>\<open>
  const uploadsDir = process.env.NODE_ENV === 'production'
    ? path.join('/tmp', 'uploads') : path.join(__dirname, '../uploads');
  \<close>
\<close>

definition uploadsDir :: "'v host \<Rightarrow> jsstring" where
  "uploadsDir H =
     (if production H then path_join H [js ''/tmp'', js ''uploads'']
      else path_join H [dirname H, js ''../uploads''])"

section \<open>Responses\<close>

text \<open>
  The texts of the responses, by what they say: the sources write them in Korean.
  \<open>Thrown e\<close> is \<open>error.message\<close> of a thrown error, \<open>UploadedRows n\<close> the success
  message of the upload with the row count in it.
\<close>

datatype message_text =
    NoFileUploaded
  | UploadedRows nat
  | FileProcessingFailed
  | MappingSaved
  | MappingSaveFailed
  | UploadedFileNotFound
  | OrderGenerated
  | OrderGenerationFailed
  | FileNotFound
  | DownloadFailed
  | FileTooLarge
  | Thrown js_error

record 'v upload_result =
  success :: bool
  fileName :: jsstring
  fileId :: jsstring
  headers :: "jsstring list"
  previewData :: "row_data list"
  totalRows :: nat
  validation :: 'v
  message :: message_text

record generate_result =
  generatedFile :: jsstring
  downloadUrl :: jsstring
  generatedRows :: nat
  generatedErrors :: "(nat \<times> jsstring) list"

text \<open>
  A response body: \<open>{ error, details }\<close>; the upload's JSON; \<open>{ success: true,
  message, mappingId }\<close>; the generate route's JSON (\<open>success: true\<close> and its message
  are constant); the file that \<open>res.download(filePath, fileName)\<close> sends, with its
  content.
\<close>

datatype 'v body =
    ErrorBody message_text "js_error option"
  | UploadBody "'v upload_result"
  | MappingBody jsval
  | GenerateBody generate_result
  | FileBody jsstring jsstring jsstring

record 'v response =
  status :: nat
  body :: "'v body"

section \<open>Upload middleware (multer) and the error handler\<close>

text \<open>
  The file part of a multipart request, for a request with one file part at most: the
  field it came in, the file name the client gave (empty when a form is sent without a
  file chosen), the declared type, the content and its size in bytes.
\<close>

record file_info =
  fieldname :: jsstring
  originalname :: jsstring
  mimetype :: jsstring

record upload_part = file_info +
  content :: jsstring
  byte_length :: nat

text \<open>\<open>req.file\<close> as the disk storage fills it.\<close>

record uploaded_file = file_info +
  filename :: jsstring
  path :: jsstring
  file_size :: nat

text \<open>The options of \<open>multer({ storage, fileFilter, limits: { fileSize } })\<close> beside the storage.\<close>

record multer_options =
  fileFilter :: "(upload_part \<Rightarrow> js_error + bool) option"
  fileSize :: "nat option"

text \<open>
  The storage both modules configure:
  \<^verbatim>\<open>
  filename: function (req, file, cb) {
    const uniqueSuffix = Date.now() + '-' + Math.round(Math.random() * 1E9);
    cb(null, file.fieldname + '-' + uniqueSuffix + path.extname(file.originalname));
  }
  \<close>
  \<open>now\<close> is \<open>Date.now()\<close> and \<open>rnd\<close> is \<open>Math.round(Math.random() * 1E9)\<close>.
\<close>

definition storage_filename :: "'v host \<Rightarrow> nat \<Rightarrow> nat \<Rightarrow> upload_part \<Rightarrow> jsstring" where
  "storage_filename H now rnd file =
     (let uniqueSuffix = decimal now @ js ''-'' @ decimal rnd
      in fieldname file @ js ''-'' @ uniqueSuffix @ path_extname H (originalname file))"

text \<open>
  \<open>upload.single(field)\<close> as multer does it: a request without a file part, or with a
  file part that has no file name, reaches the handler with \<open>req.file\<close> undefined; a
  file under another field than \<open>field\<close> is refused with a \<open>MulterError\<close> of code
  \<open>LIMIT_UNEXPECTED_FILE\<close>; then the \<open>fileFilter\<close>, when there is one, is asked and can
  pass an error on or skip the file; a file over \<open>limits.fileSize\<close> is refused with a
  \<open>MulterError\<close> of code \<open>LIMIT_FILE_SIZE\<close>; otherwise the file is written under the
  destination directory and described in \<open>req.file\<close>. An error goes to the
  application's error handler (\<open>Next\<close>), not to the route's handler, and leaves no file
  behind.
\<close>

datatype multer_outcome = Next js_error | Proceed filesystem "uploaded_file option"

definition store_upload ::
  "'v host \<Rightarrow> multer_options \<Rightarrow> nat \<Rightarrow> nat \<Rightarrow> filesystem \<Rightarrow> upload_part \<Rightarrow> multer_outcome" where
  "store_upload H opts now rnd fs file =
     (if (case fileSize opts of None \<Rightarrow> False | Some limit \<Rightarrow> byte_length file > limit)
      then Next (MulterError (js ''LIMIT_FILE_SIZE''))
      else (let name = storage_filename H now rnd file;
                target = path_join H [uploadsDir H, name]
            in case writeFileSync fs target (content file) of
                 Inl error \<Rightarrow> Next error
               | Inr fs' \<Rightarrow>
                   Proceed fs'
                     (Some \<lparr>fieldname = fieldname file, originalname = originalname file,
                            mimetype = mimetype file, filename = name, path = target,
                            file_size = byte_length file\<rparr>)))"

definition multer_single ::
  "'v host \<Rightarrow> multer_options \<Rightarrow> jsstring \<Rightarrow> nat \<Rightarrow> nat \<Rightarrow> filesystem \<Rightarrow> upload_part option \<Rightarrow>
   multer_outcome" where
  "multer_single H opts field now rnd fs part =
     (case part of
        None \<Rightarrow> Proceed fs None
      | Some file \<Rightarrow>
          if originalname file = [] then Proceed fs None
          else if fieldname file \<noteq> field then Next (MulterError (js ''LIMIT_UNEXPECTED_FILE''))
          else (case fileFilter opts of
                  None \<Rightarrow> store_upload H opts now rnd fs file
                | Some accept \<Rightarrow>
                    (case accept file of
                       Inl error \<Rightarrow> Next error
                     | Inr False \<Rightarrow> Proceed fs None
                     | Inr True \<Rightarrow> store_upload H opts now rnd fs file)))"

text \<open>The router module: \<open>const upload = multer({ storage: storage });\<close>\<close>

definition router_upload :: multer_options where
  "router_upload = \<lparr>fileFilter = None, fileSize = None\<rparr>"

text \<open>
  server.js configures an \<open>upload\<close> of its own, which no route of the sources uses:
  \<^verbatim>\<open>
  fileFilter: (req, file, cb) => {
    const allowedTypes = /xlsx|xls|csv/;
    const extname = allowedTypes.test(path.extname(file.originalname).toLowerCase());
    const mimetype = allowedTypes.test(file.mimetype) ||
      file.mimetype === 'application/vnd.openxmlformats-officedocument.spreadsheetml.sheet' ||
      file.mimetype === 'application/vnd.ms-excel' ||
      file.mimetype === 'text/csv';
    if (mimetype && extname) { return cb(null, true); }
    else { cb(new Error(...)); }
  },
  limits: { fileSize: 10 * 1024 * 1024 }
  \<close>
\<close>

fun contains :: "'a list \<Rightarrow> 'a list \<Rightarrow> bool" where
  "contains pat [] = (pat = [])"
| "contains pat (c # cs) = (take (length pat) (c # cs) = pat \<or> contains pat cs)"

definition allowedTypes :: "jsstring \<Rightarrow> bool" where
  "allowedTypes s = (contains (js ''xlsx'') s \<or> contains (js ''xls'') s \<or> contains (js ''csv'') s)"

definition server_fileFilter :: "'v host \<Rightarrow> upload_part \<Rightarrow> js_error + bool" where
  "server_fileFilter H file =
     (let extname = allowedTypes (toLowerCase H (path_extname H (originalname file)));
          mimetype = (allowedTypes (mimetype file)
            \<or> mimetype file = js ''application/vnd.openxmlformats-officedocument.spreadsheetml.sheet''
            \<or> mimetype file = js ''application/vnd.ms-excel''
            \<or> mimetype file = js ''text/csv'')
      in if mimetype \<and> extname then Inr True else Inl UnsupportedFileType)"

definition server_upload :: "'v host \<Rightarrow> multer_options" where
  "server_upload H = \<lparr>fileFilter = Some (server_fileFilter H), fileSize = Some (10 * 1024 * 1024)\<rparr>"

text \<open>
  The error handler of server.js:
  \<^verbatim>\<open>
  app.use((error, req, res, next) => {
    if (error instanceof multer.MulterError) {
      if (error.code === 'LIMIT_FILE_SIZE') {
        return res.status(400).json({ error: <file too large> });
      }
    }
    res.status(500).json({ error: error.message });
  });
  \<close>
\<close>

definition error_handler :: "js_error \<Rightarrow> 'v response" where
  "error_handler error =
     (case error of
        MulterError code \<Rightarrow>
          (if code = js ''LIMIT_FILE_SIZE''
           then \<lparr>status = 400, body = ErrorBody FileTooLarge None\<rparr>
           else \<lparr>status = 500, body = ErrorBody (Thrown error) None\<rparr>)
      | _ \<Rightarrow> \<lparr>status = 500, body = ErrorBody (Thrown error) None\<rparr>)"

section \<open>The routes\<close>

subsection \<open>Upload and preview\<close>

text \<open>
  \<^verbatim>\<open>
  router.post('/upload', upload.single('orderFile'), async (req, res) => {
    try {
      if (!req.file) { return res.status(400).json({ error: <no file uploaded> }); }
      const filePath = req.file.path;
      const fileExtension = path.extname(req.file.originalname).toLowerCase();
      let previewData = [];
      let headers = [];
      if (fileExtension === '.csv') {
        const csvData = fs.readFileSync(filePath, 'utf8');
        ... the CSV branch ...
      } else {
        const workbook = new ExcelJS.Workbook();
        await workbook.xlsx.readFile(filePath);
        const worksheet = workbook.getWorksheet(1);
        if (worksheet) { ... the Excel branch ... }
      }
      const validation = validateOrderData(previewData, headers);
      res.json({ success: true, fileName: req.file.originalname, fileId: req.file.filename,
        headers: headers, previewData: previewData, totalRows: previewData.length,
        validation: validation, message: <uploaded, previewData.length rows> });
    } catch (error) {
      res.status(500).json({ error: <file processing failed>, details: error.message });
    }
  });
  \<close>
\<close>

definition read_preview ::
  "'v host \<Rightarrow> filesystem \<Rightarrow> uploaded_file \<Rightarrow> js_error + jsstring list \<times> row_data list" where
  "read_preview H fs file =
     (let filePath = path file;
          fileExtension = toLowerCase H (path_extname H (originalname file))
      in if fileExtension = js ''.csv''
         then (case readFileSync fs filePath of
                 Inl error \<Rightarrow> Inl error
               | Inr csvData \<Rightarrow> Inr (csv_preview csvData))
         else (case readFileSync fs filePath of
                 Inl error \<Rightarrow> Inl error
               | Inr data \<Rightarrow>
                   (case xlsx_readFile H data of
                      Inl error \<Rightarrow> Inl error
                    | Inr worksheet \<Rightarrow> Inr (excel_preview (numberText H) worksheet))))"

definition post_upload :: "'v host \<Rightarrow> filesystem \<Rightarrow> uploaded_file option \<Rightarrow> 'v response" where
  "post_upload H fs req_file =
     (case req_file of
        None \<Rightarrow> \<lparr>status = 400, body = ErrorBody NoFileUploaded None\<rparr>
      | Some file \<Rightarrow>
          (case read_preview H fs file of
             Inl error \<Rightarrow> \<lparr>status = 500, body = ErrorBody FileProcessingFailed (Some error)\<rparr>
           | Inr (hs, rows) \<Rightarrow>
               \<lparr>status = 200,
                body = UploadBody
                  \<lparr>success = True, fileName = originalname file, fileId = filename file,
                   headers = hs, previewData = rows, totalRows = length rows,
                   validation = validateOrderData H rows hs,
                   message = UploadedRows (length rows)\<rparr>\<rparr>))"

text \<open>
  The upload operation as a client sees it: the router's middleware, then the handler,
  or the error handler when the middleware passes an error on.
\<close>

definition upload_endpoint ::
  "'v host \<Rightarrow> nat \<Rightarrow> nat \<Rightarrow> filesystem \<Rightarrow> upload_part option \<Rightarrow> 'v response \<times> filesystem" where
  "upload_endpoint H now rnd fs part =
     (case multer_single H router_upload (js ''orderFile'') now rnd fs part of
        Next error \<Rightarrow> (error_handler error, fs)
      | Proceed fs' req_file \<Rightarrow> (post_upload H fs' req_file, fs'))"

subsection \<open>Saving a mapping\<close>

text \<open>
  \<^verbatim>\<open>
  router.post('/mapping', (req, res) => {
    try {
      const { mappingName, sourceFields, targetFields, mappingRules } = req.body;
      const mappingData = { name: mappingName, createdAt: new Date().toISOString(),
        sourceFields, targetFields, rules: mappingRules };
      const mappingPath = process.env.NODE_ENV === 'production'
        ? path.join('/tmp', 'mappings') : path.join(__dirname, '../file/mappings');
      if (!fs.existsSync(mappingPath)) { fs.mkdirSync(mappingPath, { recursive: true }); }
      fs.writeFileSync(path.join(mappingPath, `${mappingName}.json`),
        JSON.stringify(mappingData, null, 2));
      res.json({ success: true, message: <mapping saved>, mappingId: mappingName });
    } catch (error) {
      res.status(500).json({ error: <mapping save failed>, details: error.message });
    }
  });
  \<close>
  \<open>createdAt\<close> is the text of \<open>new Date().toISOString()\<close>.
\<close>

definition mappingData :: "jsval \<Rightarrow> jsstring \<Rightarrow> jsval" where
  "mappingData req_body createdAt =
     JObj [(js ''name'', get_prop req_body (js ''mappingName'')),
           (js ''createdAt'', JStr createdAt),
           (js ''sourceFields'', get_prop req_body (js ''sourceFields'')),
           (js ''targetFields'', get_prop req_body (js ''targetFields'')),
           (js ''rules'', get_prop req_body (js ''mappingRules''))]"

definition mapping_dir :: "'v host \<Rightarrow> jsstring" where
  "mapping_dir H =
     (if production H then path_join H [js ''/tmp'', js ''mappings'']
      else path_join H [dirname H, js ''../file/mappings''])"

text \<open>The file name \<open>`${mappingName}.json`\<close>.\<close>

definition mapping_file :: "'v host \<Rightarrow> jsval \<Rightarrow> js_error + jsstring" where
  "mapping_file H mappingName =
     (case to_string (numberText H) mappingName of
        Inl error \<Rightarrow> Inl error
      | Inr text \<Rightarrow> Inr (text @ js ''.json''))"

text \<open>
  The \<open>try\<close> block up to the write: the error thrown, if any, and the file system as
  the block leaves it (the directory can have been created before a later step throws).
\<close>

definition save_mapping ::
  "'v host \<Rightarrow> jsstring \<Rightarrow> filesystem \<Rightarrow> jsval \<Rightarrow> js_error option \<times> filesystem" where
  "save_mapping H createdAt fs req_body =
     (if req_body = JUndefined \<or> req_body = JNull then (Some TypeError, fs)
      else (let mappingName = get_prop req_body (js ''mappingName'');
                mappingPath = mapping_dir H
            in case (if \<not> existsSync fs mappingPath then mkdirSync fs mappingPath else Inr fs) of
                 Inl error \<Rightarrow> (Some error, fs)
               | Inr fs1 \<Rightarrow>
                   (case mapping_file H mappingName of
                      Inl error \<Rightarrow> (Some error, fs1)
                    | Inr file \<Rightarrow>
                        (case writeFileSync fs1 (path_join H [mappingPath, file])
                                (JSON_stringify H (mappingData req_body createdAt)) of
                           Inl error \<Rightarrow> (Some error, fs1)
                         | Inr fs2 \<Rightarrow> (None, fs2)))))"

definition post_mapping ::
  "'v host \<Rightarrow> jsstring \<Rightarrow> filesystem \<Rightarrow> jsval \<Rightarrow> 'v response \<times> filesystem" where
  "post_mapping H createdAt fs req_body =
     (case save_mapping H createdAt fs req_body of
        (Some error, fs') \<Rightarrow>
          (\<lparr>status = 500, body = ErrorBody MappingSaveFailed (Some error)\<rparr>, fs')
      | (None, fs') \<Rightarrow>
          (\<lparr>status = 200, body = MappingBody (get_prop req_body (js ''mappingName''))\<rparr>, fs'))"

subsection \<open>Generating the order file\<close>

text \<open>
  \<^verbatim>\<open>
  router.post('/generate', async (req, res) => {
    try {
      const { fileId, mappingId, templateType } = req.body;
      const uploadedFilePath = path.join(uploadsDir, fileId);
      if (!fs.existsSync(uploadedFilePath)) {
        return res.status(404).json({ error: <uploaded file not found> });
      }
      const mappingPath = process.env.NODE_ENV === 'production'
        ? path.join('/tmp', 'mappings', `${mappingId}.json`)
        : path.join(__dirname, '../file/mappings', `${mappingId}.json`);
      let mappingRules = {};
      if (fs.existsSync(mappingPath)) {
        mappingRules = JSON.parse(fs.readFileSync(mappingPath, 'utf8'));
      }
      const templatePath = path.join(__dirname, '../file/porder_template.xlsx');
      const result = await convertToStandardFormat(uploadedFilePath, templatePath, mappingRules);
      res.json({ success: true, generatedFile: result.fileName,
        downloadUrl: `/api/orders/download/${result.fileName}`,
        processedRows: result.processedRows, errors: result.errors, message: <generated> });
    } catch (error) {
      res.status(500).json({ error: <generation failed>, details: error.message });
    }
  });
  \<close>
\<close>

text \<open>The path of the record, for the file name that the template literal gives.\<close>

definition mapping_path :: "'v host \<Rightarrow> jsstring \<Rightarrow> jsstring" where
  "mapping_path H file =
     (if production H then path_join H [js ''/tmp'', js ''mappings'', file]
      else path_join H [dirname H, js ''../file/mappings'', file])"

definition load_mapping :: "'v host \<Rightarrow> filesystem \<Rightarrow> jsval \<Rightarrow> js_error + jsval" where
  "load_mapping H fs mappingId =
     (case mapping_file H mappingId of
        Inl error \<Rightarrow> Inl error
      | Inr file \<Rightarrow>
          (let mappingPath = mapping_path H file
           in if existsSync fs mappingPath
              then (case readFileSync fs mappingPath of
                      Inl error \<Rightarrow> Inl error
                    | Inr data \<Rightarrow> JSON_parse H data)
              else Inr (JObj [])))"

definition templatePath :: "'v host \<Rightarrow> jsstring" where
  "templatePath H = path_join H [dirname H, js ''../file/porder_template.xlsx'']"

text \<open>
  The answer for the outcome of the \<open>try\<close> block: the result of the converter, or the
  error that the block threw.
\<close>

definition generate_reply ::
  "(js_error + conversion_result) \<times> filesystem \<Rightarrow> 'v response \<times> filesystem" where
  "generate_reply outcome =
     (case outcome of
        (Inl error, fs') \<Rightarrow>
          (\<lparr>status = 500, body = ErrorBody OrderGenerationFailed (Some error)\<rparr>, fs')
      | (Inr result, fs') \<Rightarrow>
          (\<lparr>status = 200,
            body = GenerateBody
              \<lparr>generatedFile = resultFileName result,
               downloadUrl = js ''/api/orders/download/'' @ resultFileName result,
               generatedRows = processedRows result,
               generatedErrors = errors result\<rparr>\<rparr>, fs'))"

definition post_generate :: "'v host \<Rightarrow> filesystem \<Rightarrow> jsval \<Rightarrow> 'v response \<times> filesystem" where
  "post_generate H fs req_body =
     (if req_body = JUndefined \<or> req_body = JNull then generate_reply (Inl TypeError, fs)
      else (case get_prop req_body (js ''fileId'') of
              JStr uploadedName \<Rightarrow>
                (let uploadedFilePath = path_join H [uploadsDir H, uploadedName]
                 in if \<not> existsSync fs uploadedFilePath
                    then (\<lparr>status = 404, body = ErrorBody UploadedFileNotFound None\<rparr>, fs)
                    else (case load_mapping H fs (get_prop req_body (js ''mappingId'')) of
                            Inl error \<Rightarrow> generate_reply (Inl error, fs)
                          | Inr mappingRules \<Rightarrow>
                              generate_reply
                                (convertToStandardFormat H fs uploadedFilePath (templatePath H)
                                   mappingRules)))
            | _ \<Rightarrow> generate_reply (Inl TypeError, fs)))"

subsection \<open>Download\<close>

text \<open>
  \<^verbatim>\<open>
  router.get('/download/:fileName', (req, res) => {
    try {
      const fileName = req.params.fileName;
      const filePath = path.join(uploadsDir, fileName);
      if (!fs.existsSync(filePath)) {
        return res.status(404).json({ error: <file not found> });
      }
      res.download(filePath, fileName, (err) => {
        if (err) { res.status(500).json({ error: <download failed> }); }
      });
    } catch (error) {
      res.status(500).json({ error: <download failed>, details: error.message });
    }
  });
  \<close>
  \<open>name\<close> is \<open>req.params.fileName\<close> of a request without conditional or range
  headers. \<open>res.download\<close> reports an error to its callback when the path is not a
  regular file, and when its dot-file policy refuses the path: a file whose name begins
  with a dot is not sent.
\<close>

definition get_download :: "'v host \<Rightarrow> filesystem \<Rightarrow> jsstring \<Rightarrow> 'v response" where
  "get_download H fs name =
     (let filePath = path_join H [uploadsDir H, name]
      in if \<not> existsSync fs filePath
         then \<lparr>status = 404, body = ErrorBody FileNotFound None\<rparr>
         else (case files fs filePath of
                 Some data \<Rightarrow>
                   if send_refuses H filePath
                   then \<lparr>status = 500, body = ErrorBody DownloadFailed None\<rparr>
                   else \<lparr>status = 200, body = FileBody filePath name data\<rparr>
               | None \<Rightarrow> \<lparr>status = 500, body = ErrorBody DownloadFailed None\<rparr>))"

subsection \<open>A saved definition and its request\<close>


section \<open>Converter rows\<close>

text \<open>
  Modelled from the spec: the row loop of the Converter (\<open>convertToStandardFormat\<close> of
  utils/converter, which is not among the sources). A source row maps its field names
  to values; \<open>mapping.rules\<close> is a list of (source field, target field) entries. For
  each source row and each entry the value found under the source field is copied to
  the target; a row with a source field absent is recorded in the error list with its
  1-based row index and the reason (here the name of the missing field), and
  processing continues with the next row. The result has the rows written, the count of
  rows successfully written and the accumulated error list.
\<close>

fun copy_fields :: "(jsstring \<times> jsstring) list \<Rightarrow> row_data \<Rightarrow> row_data \<Rightarrow> jsstring + row_data" where
  "copy_fields [] row out = Inr out"
| "copy_fields ((source, target) # rules) row out =
     (case row source of
        None \<Rightarrow> Inl source
      | Some v \<Rightarrow> copy_fields rules row (out(target \<mapsto> v)))"

text \<open>
  Modelled from the spec: the loop over the source rows, \<open>rowIndex\<close> being the 1-based
  index of the first row of the list. It returns the rows written, their count and the
  error list.
\<close>

fun convert_rows ::
  "(jsstring \<times> jsstring) list \<Rightarrow> nat \<Rightarrow> row_data list \<Rightarrow> row_data list \<times> nat \<times> (nat \<times> jsstring) list" where
  "convert_rows rules rowIndex [] = ([], 0, [])"
| "convert_rows rules rowIndex (row # rows) =
     (case convert_rows rules (Suc rowIndex) rows of
        (written, count, errs) \<Rightarrow>
          (case copy_fields rules row Map.empty of
             Inl reason \<Rightarrow> (written, count, (rowIndex, reason) # errs)
           | Inr out \<Rightarrow> (out # written, Suc count, errs)))"

text \<open>
  Modelled from the spec: the ConversionResult of a conversion, with the name of the
  generated file, beside the rows written into the copy of the template.
\<close>

definition convert ::
  "(jsstring \<times> jsstring) list \<Rightarrow> row_data list \<Rightarrow> jsstring \<Rightarrow> row_data list \<times> conversion_result" where
  "convert rules rows outputName =
     (case convert_rows rules 1 rows of
        (written, count, errs) \<Rightarrow>
          (written, \<lparr>resultFileName = outputName, processedRows = count, errors = errs\<rparr>))"

section \<open>A sample host\<close>

text \<open>
  A host to run the routes on examples, in production mode on a POSIX system, so that
  the directories are \<open>/tmp/uploads\<close> and \<open>/tmp/mappings\<close>, with \<open>__dirname\<close>
  \<open>/app/routes\<close>. Its \<open>path.join\<close> is Node's \<open>path.posix.join\<close>; its other functions
  agree with Node's on the arguments of the examples: \<open>path.extname\<close> on a file name
  without a directory part, \<open>toLowerCase\<close> on ASCII text, the text of a natural number,
  \<open>JSON\<close> on the two mapping definitions of the examples. Its workbook reader refuses
  every content (the examples hold no workbook), its validator returns nothing, and its
  converter writes an empty file \<open>generated.xlsx\<close> and reports no rows.
\<close>

text \<open>
  \<open>path.posix.join\<close> and \<open>path.posix.normalize\<close> of Node's lib/path.js: the
  segments that are not empty are joined with \<open>/\<close> and the result is normalised. Empty
  segments and \<open>.\<close> are dropped; \<open>..\<close> removes the segment before it, and is kept only
  in a relative path that has no segment left to remove; a trailing slash is kept.
\<close>

definition normalize_step :: "bool \<Rightarrow> jsstring \<Rightarrow> jsstring list \<Rightarrow> jsstring list" where
  "normalize_step allowAboveRoot segment res =
     (if segment = [] \<or> segment = js ''.'' then res
      else if segment = js ''..''
      then (if res \<noteq> [] \<and> last res \<noteq> js ''..'' then butlast res
            else if allowAboveRoot then res @ [segment] else res)
      else res @ [segment])"

definition normalizeString :: "jsstring \<Rightarrow> bool \<Rightarrow> jsstring" where
  "normalizeString p allowAboveRoot =
     join_with (js ''/'') (fold (normalize_step allowAboveRoot) (split 0x2F p) [])"

definition posix_normalize :: "jsstring \<Rightarrow> jsstring" where
  "posix_normalize p =
     (if p = [] then js ''.''
      else (let isAbsolute = (hd p = 0x2F);
                trailingSeparator = (last p = 0x2F);
                normalized = normalizeString p (\<not> isAbsolute)
            in if normalized = []
               then (if isAbsolute then js ''/'' else if trailingSeparator then js ''./'' else js ''.'')
               else (if isAbsolute then js ''/'' else [])
                    @ normalized @ (if trailingSeparator then js ''/'' else [])))"

definition posix_join :: "jsstring list \<Rightarrow> jsstring" where
  "posix_join segments =
     (let joined = join_with (js ''/'') (filter (\<lambda>arg. arg \<noteq> []) segments)
      in if joined = [] then js ''.'' else posix_normalize joined)"

definition sample_extname :: "jsstring \<Rightarrow> jsstring" where
  "sample_extname name =
     (let stem = dropWhile (\<lambda>c. c \<noteq> 0x2E) (rev name)
      in if length stem \<le> 1 then [] else drop (length stem - 1) name)"

definition sample_toLowerCase :: "jsstring \<Rightarrow> jsstring" where
  "sample_toLowerCase s = map (\<lambda>c. if 0x41 \<le> c \<and> c \<le> 0x5A then c + 0x20 else c) s"

text \<open>
  The dot-file policy of express 5: a path with a segment that begins with a dot is
  refused. (express 4 refuses only when the last segment does; the paths of the examples
  have no such segment.)
\<close>

definition sample_send_refuses :: "jsstring \<Rightarrow> bool" where
  "sample_send_refuses p = list_ex (\<lambda>part. 1 < length part \<and> hd part = 0x2E) (split 0x2F p)"

definition sample_convert ::
  "filesystem \<Rightarrow> jsstring \<Rightarrow> jsstring \<Rightarrow> jsval \<Rightarrow> (js_error + conversion_result) \<times> filesystem" where
  "sample_convert fs uploadedFilePath template mappingRules =
     (Inr \<lparr>resultFileName = js ''generated.xlsx'', processedRows = 0, errors = []\<rparr>,
      fs\<lparr>files := (files fs)(js ''/tmp/uploads/generated.xlsx'' \<mapsto> [])\<rparr>)"

subsection \<open>Sample mapping definitions and their JSON\<close>

text \<open>Two mapping definitions saved under the same name, and the times of the saves.\<close>

definition retail_mapping :: jsval where
  "retail_mapping =
     JObj [(js ''mappingName'', JStr (js ''retail'')),
           (js ''sourceFields'', JArr [JStr (js ''id'')]),
           (js ''targetFields'', JArr [JStr (js ''code'')]),
           (js ''mappingRules'', JObj [(js ''id'', JStr (js ''code''))])]"

definition retail_mapping2 :: jsval where
  "retail_mapping2 =
     JObj [(js ''mappingName'', JStr (js ''retail'')),
           (js ''sourceFields'', JArr [JStr (js ''qty'')]),
           (js ''targetFields'', JArr [JStr (js ''amount'')]),
           (js ''mappingRules'', JObj [(js ''qty'', JStr (js ''amount''))])]"

definition first_time :: jsstring where
  "first_time = js ''2024-01-01T00:00:00.000Z''"

definition second_time :: jsstring where
  "second_time = js ''2024-01-02T00:00:00.000Z''"

text \<open>
  The text of \<open>JSON.stringify(v, null, 2)\<close> for values whose strings need no escape and
  whose numbers are natural: members and elements on lines of their own, indented by
  two spaces a level, \<open>": "\<close> after a key, properties with the value \<open>undefined\<close> left
  out, \<open>undefined\<close> elements written as \<open>null\<close>.
\<close>

definition quote :: "jsstring \<Rightarrow> jsstring" where
  "quote s = [0x22] @ s @ [0x22]"

fun json_text :: "nat \<Rightarrow> jsval \<Rightarrow> jsstring"
  and json_elements :: "nat \<Rightarrow> jsval list \<Rightarrow> jsstring list"
  and json_members :: "nat \<Rightarrow> (jsstring \<times> jsval) list \<Rightarrow> jsstring list" where
  "json_text indent JUndefined = js ''null''"
| "json_text indent JNull = js ''null''"
| "json_text indent (JBool b) = (if b then js ''true'' else js ''false'')"
| "json_text indent (JNum x) = decimal (nat \<lfloor>x\<rfloor>)"
| "json_text indent (JStr s) = quote s"
| "json_text indent (JArr vs) =
     (if vs = [] then js ''[]''
      else js ''['' @ [0x0A] @ join_with (js '','' @ [0x0A]) (json_elements (indent + 2) vs)
           @ [0x0A] @ replicate indent 0x20 @ js '']'')"
| "json_text indent (JObj props) =
     (if json_members (indent + 2) props = [] then js ''{}''
      else js ''{'' @ [0x0A] @ join_with (js '','' @ [0x0A]) (json_members (indent + 2) props)
           @ [0x0A] @ replicate indent 0x20 @ js ''}'')"
| "json_elements indent [] = []"
| "json_elements indent (v # vs) =
     (replicate indent 0x20 @ json_text indent v) # json_elements indent vs"
| "json_members indent [] = []"
| "json_members indent ((key, v) # props) =
     (if v = JUndefined then json_members indent props
      else (replicate indent 0x20 @ quote key @ js '': '' @ json_text indent v)
           # json_members indent props)"

definition sample_stringify :: "jsval \<Rightarrow> jsstring" where
  "sample_stringify v = json_text 0 v"

text \<open>
  \<open>JSON.parse\<close> on the texts of the two definitions of the examples; every other text
  is refused.
\<close>

definition sample_parse :: "jsstring \<Rightarrow> js_error + jsval" where
  "sample_parse data =
     (if data = json_text 0 (mappingData retail_mapping first_time)
      then Inr (mappingData retail_mapping first_time)
      else if data = json_text 0 (mappingData retail_mapping2 second_time)
      then Inr (mappingData retail_mapping2 second_time)
      else Inl SyntaxError)"

definition sample_host :: "unit host" where
  "sample_host =
     \<lparr>production = True,
      dirname = js ''/app/routes'',
      path_join = posix_join,
      path_extname = sample_extname,
      toLowerCase = sample_toLowerCase,
      numberText = (\<lambda>x. decimal (nat \<lfloor>x\<rfloor>)),
      JSON_stringify = sample_stringify,
      JSON_parse = sample_parse,
      xlsx_readFile = (\<lambda>data. Inl (LibraryError (js ''not a workbook''))),
      send_refuses = sample_send_refuses,
      validateOrderData = (\<lambda>rows hs. ()),
      convertToStandardFormat = sample_convert\<rparr>"

text \<open>An empty disk with the uploads directory, as the router module creates it on load.\<close>

definition sample_disk :: filesystem where
  "sample_disk = \<lparr>files = Map.empty, dirs = {js ''/tmp/uploads''}, denied = {}\<rparr>"

subsection \<open>Sample requests\<close>

text \<open>
  File parts under the field \<open>orderFile\<close>: the spec's \<open>orders.csv\<close>; a CSV file of
  blank lines; CSV files with the header \<open>__proto__\<close>, once and twice; a PDF file; a
  CSV file of 3 + 11 MiB bytes (a header line and one line of 11 MiB digits); a workbook.
\<close>

definition orders_upload :: upload_part where
  "orders_upload =
     \<lparr>fieldname = js ''orderFile'', originalname = js ''orders.csv'', mimetype = js ''text/csv'',
      content = js ''id,qty\<newline>1,5\<newline>2,7'', byte_length = 14\<rparr>"

definition blank_upload :: upload_part where
  "blank_upload =
     \<lparr>fieldname = js ''orderFile'', originalname = js ''empty.CSV'', mimetype = js ''text/csv'',
      content = js '' \<newline>\<newline>  '', byte_length = 5\<rparr>"

definition proto_upload :: upload_part where
  "proto_upload =
     \<lparr>fieldname = js ''orderFile'', originalname = js ''orders.csv'', mimetype = js ''text/csv'',
      content = js ''__proto__,a\<newline>1,2'', byte_length = 15\<rparr>"

definition twice_upload :: upload_part where
  "twice_upload =
     \<lparr>fieldname = js ''orderFile'', originalname = js ''orders.csv'', mimetype = js ''text/csv'',
      content = js ''__proto__,__proto__\<newline>1,2'', byte_length = 23\<rparr>"

definition pdf_upload :: upload_part where
  "pdf_upload =
     \<lparr>fieldname = js ''orderFile'', originalname = js ''order.pdf'',
      mimetype = js ''application/pdf'', content = js ''%PDF-1.4'', byte_length = 8\<rparr>"

definition big_upload :: upload_part where
  "big_upload =
     \<lparr>fieldname = js ''orderFile'', originalname = js ''big.csv'', mimetype = js ''text/csv'',
      content = js ''id'' @ [0x0A] @ replicate (11 * 1024 * 1024) 0x31,
      byte_length = 3 + 11 * 1024 * 1024\<rparr>"

definition xlsx_upload :: upload_part where
  "xlsx_upload =
     \<lparr>fieldname = js ''orderFile'', originalname = js ''orders.xlsx'',
      mimetype = js ''application/vnd.openxmlformats-officedocument.spreadsheetml.sheet'',
      content = js ''PK'', byte_length = 2\<rparr>"

text \<open>
  A worksheet whose header row has a blank cell in column 2: row 1 is
  \<open>id, (blank), qty\<close> and row 2 is \<open>A1, (blank), 7\<close>. The workbook host is the sample
  host with a reader that finds this worksheet in every file.
\<close>

definition blank_header_sheet :: worksheet where
  "blank_header_sheet =
     [[CellString (js ''id''), CellNull, CellString (js ''qty'')],
      [CellString (js ''A1''), CellNull, CellString (js ''7'')]]"

definition workbook_host :: "unit host" where
  "workbook_host = sample_host\<lparr>xlsx_readFile := (\<lambda>data. Inr (Some blank_header_sheet))\<rparr>"

text \<open>
  The disk after one upload of \<open>orders.csv\<close> at time 1 with random number 2, and
  nothing else: no mapping was saved and nothing was generated.
\<close>

definition uploaded_disk :: filesystem where
  "uploaded_disk = snd (upload_endpoint sample_host 1 2 sample_disk (Some orders_upload))"

definition generate_request :: jsval where
  "generate_request =
     JObj [(js ''fileId'', JStr (js ''orderFile-1-2.csv'')), (js ''mappingId'', JStr (js ''missing''))]"



text \<open>Three source rows for the rule \<open>id \<rightarrow> code\<close>; the second has no \<open>id\<close>.\<close>

definition sample_rules :: "(jsstring \<times> jsstring) list" where
  "sample_rules = [(js ''id'', js ''code'')]"

definition sample_rows :: "row_data list" where
  "sample_rows =
     [[js ''id'' \<mapsto> js ''1''], [js ''qty'' \<mapsto> js ''5''], [js ''id'' \<mapsto> js ''3'']]"

section \<open>Properties of the helpers\<close>

lemma split_plain: "sep \<notin> set xs \<Longrightarrow> split sep xs = [xs]"
  by (induction xs) auto

lemma split_line: "sep \<notin> set xs \<Longrightarrow> split sep (xs @ sep # ys) = xs # split sep ys"
  by (induction xs) (auto split: list.splits)

lemma trim_plain:
  assumes "xs \<noteq> []" "\<not> is_ws (hd xs)" "\<not> is_ws (last xs)"
  shows "trim xs = xs"
proof -
  from assms have "dropWhile is_ws xs = xs"
    by (cases xs) auto
  moreover from assms have "dropWhile is_ws (rev xs) = rev xs"
    by (cases "rev xs") (auto simp: hd_rev [symmetric])
  ultimately show ?thesis by (simp add: trim_def)
qed

lemma length_slice_array: "length (slice_array a b xs) = min b (length xs) - a"
  by (simp add: slice_array_def)

lemma decimal_small: "n < 10 \<Longrightarrow> decimal n = [of_nat (48 + n)]"
  by (subst decimal.simps) simp

lemma decimal_snoc: "\<not> n < 10 \<Longrightarrow> decimal n = decimal (n div 10) @ [of_nat (48 + n mod 10)]"
  by (subst decimal.simps) simp

lemma decimal_not_Nil: "decimal n \<noteq> []"
  by (subst decimal.simps) simp

lemma digit_inject:
  assumes "a < 10" "b < 10" "(of_nat (48 + a) :: jschar) = of_nat (48 + b)"
  shows "a = b"
proof -
  from assms(3) have "unat (of_nat (48 + a) :: jschar) = unat (of_nat (48 + b) :: jschar)"
    by simp
  then have "(48 + a) mod 65536 = (48 + b) mod 65536"
    by (simp only: unat_of_nat) simp
  with assms(1,2) show ?thesis by simp
qed

lemma decimal_inject: "decimal a = decimal b \<Longrightarrow> a = b"
proof (induction a arbitrary: b rule: decimal.induct)
  case (1 n)
  show ?case
  proof (cases "n < 10")
    case small: True
    show ?thesis
    proof (cases "b < 10")
      case True
      from "1.prems" have "(of_nat (48 + n) :: jschar) = of_nat (48 + b)"
        by (simp add: decimal_small [OF small] decimal_small [OF True])
      with small True show ?thesis by (rule digit_inject)
    next
      case False
      with small "1.prems" decimal_not_Nil [of "b div 10"] show ?thesis
        by (simp add: decimal_small decimal_snoc [OF False])
    qed
  next
    case large: False
    show ?thesis
    proof (cases "b < 10")
      case True
      with "1.prems" decimal_not_Nil [of "n div 10"] show ?thesis
        by (simp add: decimal_small decimal_snoc [OF large])
    next
      case False
      from "1.prems" have "decimal (n div 10) @ [of_nat (48 + n mod 10)]
          = decimal (b div 10) @ [of_nat (48 + b mod 10)]"
        by (simp only: decimal_snoc [OF large] decimal_snoc [OF False])
      then have e: "decimal (n div 10) = decimal (b div 10)"
        and d: "(of_nat (48 + n mod 10) :: jschar) = of_nat (48 + b mod 10)"
        by (simp_all only: append1_eq_conv)
      from "1.IH" [OF large e] have "n div 10 = b div 10" .
      moreover have "n mod 10 = b mod 10"
        by (rule digit_inject [OF _ _ d]) simp_all
      ultimately show ?thesis by (metis div_mult_mod_eq)
    qed
  qed
qed

subsection \<open>Row objects\<close>

lemma fill_row_Nil: "fill_row [] cell = Map.empty"
  by (simp add: fill_row_def)

lemma fill_row_snoc:
  "fill_row (hs @ [h]) cell = set_prop (fill_row hs cell) h (cell (length hs))"
  by (simp add: fill_row_def)

lemma dom_set_prop:
  "dom (set_prop m k v) = (if k = js ''__proto__'' then dom m else insert k (dom m))"
  by (simp add: set_prop_def)

text \<open>The keys of a filled row are the headers other than \<open>__proto__\<close>.\<close>

lemma dom_fill_row: "dom (fill_row hs cell) = set hs - {js ''__proto__''}"
  by (induction hs rule: rev_induct) (auto simp: fill_row_Nil fill_row_snoc dom_set_prop)

text \<open>Under a header the row holds the cell of the header's last position.\<close>

lemma fill_row_last:
  "i < length hs \<Longrightarrow> hs ! i \<noteq> js ''__proto__'' \<Longrightarrow> hs ! i \<notin> set (drop (Suc i) hs)
   \<Longrightarrow> fill_row hs cell (hs ! i) = Some (cell i)"
proof (induction hs rule: rev_induct)
  case Nil
  then show ?case by simp
next
  case (snoc h hs)
  show ?case
  proof (cases "i = length hs")
    case True
    with snoc.prems show ?thesis
      by (simp add: fill_row_snoc set_prop_def)
  next
    case False
    with snoc.prems have i: "i < length hs" by simp
    with snoc.prems have "hs ! i \<noteq> js ''__proto__''" "hs ! i \<notin> set (drop (Suc i) hs)"
      "hs ! i \<noteq> h"
      by (auto simp: nth_append)
    with snoc.IH i show ?thesis
      by (simp add: fill_row_snoc set_prop_def nth_append)
  qed
qed

subsection \<open>File system and middleware\<close>

lemma readFileSync_written:
  "writeFileSync fs p data = Inr fs' \<Longrightarrow> readFileSync fs' p = Inr data"
  by (auto simp: writeFileSync_def readFileSync_def split: if_splits)


text \<open>
  The router's middleware stores every named file part under the field \<open>orderFile\<close>
  that the disk accepts.
\<close>

lemma router_upload_stores:
  assumes "originalname part \<noteq> []" "fieldname part = js ''orderFile''"
    and "writeFileSync fs (path_join H [uploadsDir H, storage_filename H now rnd part])
             (content part) = Inr fs'"
  shows "multer_single H router_upload (js ''orderFile'') now rnd fs (Some part) =
     Proceed fs' (Some \<lparr>fieldname = fieldname part, originalname = originalname part,
        mimetype = mimetype part, filename = storage_filename H now rnd part,
        path = path_join H [uploadsDir H, storage_filename H now rnd part],
        file_size = byte_length part\<rparr>)"
  using assms by (simp add: multer_single_def router_upload_def store_upload_def Let_def)

lemmas path_defs = posix_join_def posix_normalize_def normalizeString_def normalize_step_def

lemma sample_dirs:
  "uploadsDir sample_host = js ''/tmp/uploads''"
  "mapping_dir sample_host = js ''/tmp/mappings''"
  "templatePath sample_host = js ''/app/file/porder_template.xlsx''"
  by (simp_all add: uploadsDir_def mapping_dir_def templatePath_def sample_host_def path_defs
      js_def Let_def)

lemma sample_disk_stores:
  assumes "path_join sample_host [uploadsDir sample_host, name] = js ''/tmp/uploads/'' @ name"
  shows "writeFileSync sample_disk (path_join sample_host [uploadsDir sample_host, name]) data =
     Inr (sample_disk\<lparr>files := [js ''/tmp/uploads/'' @ name \<mapsto> data]\<rparr>)"
  by (simp add: assms writeFileSync_def sample_disk_def js_def)

lemmas route_defs = upload_endpoint_def multer_single_def router_upload_def store_upload_def
  storage_filename_def uploadsDir_def writeFileSync_def readFileSync_def post_upload_def
  read_preview_def Let_def

lemmas sample_defs = sample_host_def sample_disk_def sample_extname_def sample_toLowerCase_def
  path_defs js_def decimal_small

lemmas csv_defs = csv_preview_def csv_lines_def csv_cells_def csv_row_def fill_row_def
  set_prop_def at_index_def or_empty_def slice_array_def trim_def is_ws_def

section \<open>The CSV preview\<close>

text \<open>
  The preview has \<open>min N 20\<close> rows for \<open>N\<close> non-blank lines after the header line, the
  headers are the trimmed cells of the first non-blank line, and the keys of every
  preview row are the headers other than \<open>__proto__\<close>.
\<close>

lemma csv_preview_length:
  "length (snd (csv_preview csvData)) = min (length (csv_lines csvData) - 1) 20"
  by (auto simp: csv_preview_def Let_def length_slice_array)

lemma csv_preview_headers:
  "csv_lines csvData \<noteq> [] \<Longrightarrow> fst (csv_preview csvData) = csv_cells (hd (csv_lines csvData))"
  by (auto simp: csv_preview_def Let_def)

lemma csv_preview_keys:
  "row \<in> set (snd (csv_preview csvData)) \<Longrightarrow>
   dom row = set (fst (csv_preview csvData)) - {js ''__proto__''}"
proof -
  assume "row \<in> set (snd (csv_preview csvData))"
  then obtain line where "row = csv_row (fst (csv_preview csvData)) line"
    by (auto simp: csv_preview_def Let_def split: if_splits)
  then show ?thesis
    by (simp add: csv_row_def dom_fill_row)
qed

text \<open>
  Under a header other than \<open>__proto__\<close> a row holds the trimmed cell at the header's
  last position, or the empty string when the line has no cell there; with a repeated
  header the row has fewer entries than there are headers.
\<close>

lemma csv_row_last:
  "i < length hs \<Longrightarrow> hs ! i \<noteq> js ''__proto__'' \<Longrightarrow> hs ! i \<notin> set (drop (Suc i) hs) \<Longrightarrow>
   csv_row hs line (hs ! i) = Some (or_empty (at_index (csv_cells line) i))"
  by (simp add: csv_row_def fill_row_last)

lemma csv_row_duplicates:
  assumes "\<not> distinct hs"
  shows "card (dom (csv_row hs line)) < length hs"
proof -
  have "card (dom (csv_row hs line)) \<le> card (set hs)"
    by (simp add: csv_row_def dom_fill_row card_mono)
  also have "card (set hs) < length hs"
    using assms card_distinct [of hs] card_length [of hs]
    by (cases "card (set hs) = length hs") auto
  finally show ?thesis .
qed

lemma csv_lines_blank:
  "\<forall>line \<in> set (split 0x0A csvData). trim line = [] \<Longrightarrow> csv_lines csvData = []"
  by (simp add: csv_lines_def filter_empty_conv)

lemma csv_preview_no_lines: "csv_lines csvData = [] \<Longrightarrow> csv_preview csvData = ([], [])"
  by (simp add: csv_preview_def)

lemma csv_preview_long_line:
  assumes "0 < n"
  shows "csv_preview (js ''id'' @ [0x0A] @ replicate n 0x31) =
     ([js ''id''], [[js ''id'' \<mapsto> replicate n 0x31]])"
proof -
  let ?ones = "replicate n (0x31 :: jschar)"
  have ones: "?ones \<noteq> []" "hd ?ones = 0x31" "last ?ones = 0x31"
    using assms by simp_all
  have "split 0x0A (js ''id'' @ 0x0A # ?ones) = js ''id'' # split 0x0A ?ones"
    by (rule split_line) (simp add: js_def)
  also have "split 0x0A ?ones = [?ones]"
    by (rule split_plain) simp
  finally have lines: "split 0x0A (js ''id'' @ 0x0A # ?ones) = [js ''id'', ?ones]" .
  have t1: "trim (js ''id'') = js ''id''"
    by (simp add: trim_def js_def is_ws_def)
  have t2: "trim ?ones = ?ones"
    using ones by (intro trim_plain) (simp_all add: is_ws_def)
  have c1: "split 0x2C (js ''id'') = [js ''id'']"
    by (rule split_plain) (simp add: js_def)
  have c2: "split 0x2C ?ones = [?ones]"
    by (rule split_plain) simp
  have ne: "js ''id'' \<noteq> js ''__proto__''" "js ''id'' \<noteq> []"
    by (simp_all add: js_def)
  show ?thesis
    using ones(1) ne
    by (simp add: csv_preview_def csv_lines_def lines t1 t2 slice_array_def csv_cells_def c1 c2
        csv_row_def fill_row_def set_prop_def at_index_def or_empty_def)
qed

text \<open>
  The answer to a CSV upload under the field \<open>orderFile\<close> that the disk accepts: status
  200 with the headers and rows of the preview and with the row count.
\<close>

lemma csv_upload_preview:
  assumes named: "originalname part \<noteq> []"
    and field: "fieldname part = js ''orderFile''"
    and ext: "toLowerCase H (path_extname H (originalname part)) = js ''.csv''"
    and stored: "writeFileSync fs (path_join H [uploadsDir H, storage_filename H now rnd part])
                   (content part) = Inr fs'"
    and preview: "csv_preview (content part) = (hs, rows)"
  shows "fst (upload_endpoint H now rnd fs (Some part)) =
     \<lparr>status = 200,
      body = UploadBody
        \<lparr>success = True, fileName = originalname part,
         fileId = storage_filename H now rnd part,
         headers = hs, previewData = rows, totalRows = length rows,
         validation = validateOrderData H rows hs, message = UploadedRows (length rows)\<rparr>\<rparr>"
  using ext preview readFileSync_written [OF stored]
  by (simp add: upload_endpoint_def router_upload_stores [OF named field stored] post_upload_def
      read_preview_def)

text \<open>
  The spec's scenario: \<open>orders.csv\<close> with the header \<open>id,qty\<close> and the rows \<open>1,5\<close>
  and \<open>2,7\<close>.
\<close>

lemma orders_upload_preview:
  "fst (upload_endpoint sample_host 1 2 sample_disk (Some orders_upload)) =
     \<lparr>status = 200,
      body = UploadBody
        \<lparr>success = True, fileName = js ''orders.csv'', fileId = js ''orderFile-1-2.csv'',
         headers = [js ''id'', js ''qty''],
         previewData = [[js ''id'' \<mapsto> js ''1'', js ''qty'' \<mapsto> js ''5''],
                        [js ''id'' \<mapsto> js ''2'', js ''qty'' \<mapsto> js ''7'']],
         totalRows = 2, validation = (), message = UploadedRows 2\<rparr>\<rparr>"
  by (simp add: route_defs sample_defs csv_defs orders_upload_def)

text \<open>
  C1, where the route departs from it: every preview row of a CSV upload should have
  the header list as its key set. Uploading \<open>orders.csv\<close> with the lines
  \<open>__proto__,a\<close> and \<open>1,2\<close> is answered with the headers \<open>__proto__\<close> and \<open>a\<close> and
  with one preview row whose only key is \<open>a\<close>.
\<close>

theorem csv_upload_proto_header:
  "fst (upload_endpoint sample_host 1 2 sample_disk (Some proto_upload)) =
     \<lparr>status = 200,
      body = UploadBody
        \<lparr>success = True, fileName = js ''orders.csv'', fileId = js ''orderFile-1-2.csv'',
         headers = [js ''__proto__'', js ''a''], previewData = [[js ''a'' \<mapsto> js ''2'']],
         totalRows = 1, validation = (), message = UploadedRows 1\<rparr>\<rparr>"
  by (simp add: route_defs sample_defs csv_defs proto_upload_def)

text \<open>
  C9: a CSV upload whose content has no non-blank line succeeds: the answer has status
  200, the success flag, an empty header list, an empty preview and \<open>totalRows = 0\<close>.
  The file part comes under the field \<open>orderFile\<close>, its file name is not empty and has
  the extension \<open>.csv\<close> in any case of letters, every line of its content is blank, and
  the disk accepts the file.
\<close>

theorem csv_upload_without_lines:
  assumes named: "originalname part \<noteq> []"
    and field: "fieldname part = js ''orderFile''"
    and ext: "toLowerCase H (path_extname H (originalname part)) = js ''.csv''"
    and blank: "\<forall>line \<in> set (split 0x0A (content part)). trim line = []"
    and stored: "writeFileSync fs (path_join H [uploadsDir H, storage_filename H now rnd part])
                   (content part) = Inr fs'"
  shows "fst (upload_endpoint H now rnd fs (Some part)) =
     \<lparr>status = 200,
      body = UploadBody
        \<lparr>success = True, fileName = originalname part,
         fileId = storage_filename H now rnd part,
         headers = [], previewData = [], totalRows = 0,
         validation = validateOrderData H [] [], message = UploadedRows 0\<rparr>\<rparr>"
proof -
  have "csv_preview (content part) = ([], [])"
    using blank by (simp add: csv_lines_blank csv_preview_no_lines)
  from csv_upload_preview [OF named field ext stored this] show ?thesis by simp
qed

theorem csv_upload_without_lines_witness:
  "originalname blank_upload = js ''empty.CSV''
   \<and> fieldname blank_upload = js ''orderFile''
   \<and> toLowerCase sample_host (path_extname sample_host (originalname blank_upload)) = js ''.csv''
   \<and> map trim (split 0x0A (content blank_upload)) = [[], [], []]
   \<and> writeFileSync sample_disk
         (path_join sample_host
            [uploadsDir sample_host, storage_filename sample_host 1 2 blank_upload])
         (content blank_upload) =
       Inr (sample_disk\<lparr>files :=
              [js ''/tmp/uploads/orderFile-1-2.CSV'' \<mapsto> js '' \<newline>\<newline>  '']\<rparr>)
   \<and> fst (upload_endpoint sample_host 1 2 sample_disk (Some blank_upload)) =
       \<lparr>status = 200,
        body = UploadBody
          \<lparr>success = True, fileName = js ''empty.CSV'', fileId = js ''orderFile-1-2.CSV'',
           headers = [], previewData = [], totalRows = 0,
           validation = (), message = UploadedRows 0\<rparr>\<rparr>"
proof -
  have name: "originalname blank_upload = js ''empty.CSV''"
    and field: "fieldname blank_upload = js ''orderFile''"
    by (simp_all add: blank_upload_def)
  have named: "originalname blank_upload \<noteq> []"
    by (simp add: blank_upload_def js_def)
  have ext: "toLowerCase sample_host (path_extname sample_host (originalname blank_upload))
      = js ''.csv''"
    by (simp add: sample_defs blank_upload_def)
  have lines: "map trim (split 0x0A (content blank_upload)) = [[], [], []]"
    by (simp add: blank_upload_def js_def trim_def is_ws_def)
  have blank: "\<forall>line \<in> set (split 0x0A (content blank_upload)). trim line = []"
    by (simp add: blank_upload_def js_def trim_def is_ws_def)
  have stored_name: "storage_filename sample_host 1 2 blank_upload = js ''orderFile-1-2.CSV''"
    by (simp add: storage_filename_def sample_defs blank_upload_def)
  have target: "path_join sample_host [uploadsDir sample_host, js ''orderFile-1-2.CSV'']
      = js ''/tmp/uploads/'' @ js ''orderFile-1-2.CSV''"
    by (simp add: uploadsDir_def sample_defs Let_def)
  have stored: "writeFileSync sample_disk
         (path_join sample_host
            [uploadsDir sample_host, storage_filename sample_host 1 2 blank_upload])
         (content blank_upload) =
       Inr (sample_disk\<lparr>files :=
              [js ''/tmp/uploads/orderFile-1-2.CSV'' \<mapsto> js '' \<newline>\<newline>  '']\<rparr>)"
    by (simp only: stored_name sample_disk_stores [OF target]) (simp add: blank_upload_def js_def)
  from csv_upload_without_lines [OF named field ext blank stored] stored_name
  have "fst (upload_endpoint sample_host 1 2 sample_disk (Some blank_upload)) =
       \<lparr>status = 200,
        body = UploadBody
          \<lparr>success = True, fileName = js ''empty.CSV'', fileId = js ''orderFile-1-2.CSV'',
           headers = [], previewData = [], totalRows = 0,
           validation = (), message = UploadedRows 0\<rparr>\<rparr>"
    by (simp add: blank_upload_def)
  with name field ext lines stored show ?thesis by simp
qed

text \<open>
  C10, where the route departs from it: with a header name at two column positions a
  preview row should hold one entry for that name. Uploading \<open>orders.csv\<close> with the
  lines \<open>__proto__,__proto__\<close> and \<open>1,2\<close> is answered with that header twice and with
  one preview row that has no entry at all.
\<close>

theorem csv_upload_proto_twice:
  "fst (upload_endpoint sample_host 1 2 sample_disk (Some twice_upload)) =
     \<lparr>status = 200,
      body = UploadBody
        \<lparr>success = True, fileName = js ''orders.csv'', fileId = js ''orderFile-1-2.csv'',
         headers = [js ''__proto__'', js ''__proto__''], previewData = [Map.empty],
         totalRows = 1, validation = (), message = UploadedRows 1\<rparr>\<rparr>"
  by (simp add: route_defs sample_defs csv_defs twice_upload_def)

section \<open>Type and size of an upload\<close>

text \<open>
  The router's middleware has no filter and no size limit: it passes an error on only
  for a file under another field than \<open>orderFile\<close> and when the disk refuses the file.
  The middleware that server.js configures would refuse the PDF file and the file over
  10 MiB, and the error handler would answer the latter with status 400.
\<close>

lemma router_upload_never_refuses:
  assumes "multer_single H router_upload (js ''orderFile'') now rnd fs (Some part) = Next error"
  shows "error = MulterError (js ''LIMIT_UNEXPECTED_FILE'') \<and> fieldname part \<noteq> js ''orderFile''
     \<or> writeFileSync fs (path_join H [uploadsDir H, storage_filename H now rnd part])
          (content part) = Inl error"
  using assms
  by (auto simp: multer_single_def router_upload_def store_upload_def Let_def
      split: sum.splits if_splits)

lemma writeFileSync_error:
  "writeFileSync fs p data = Inl error \<Longrightarrow> \<exists>code. error = FsError code p"
  by (auto simp: writeFileSync_def split: if_splits)

lemma unexpected_file_code: "js ''LIMIT_UNEXPECTED_FILE'' \<noteq> js ''LIMIT_FILE_SIZE''"
  by (simp add: js_def)

text \<open>
  A file part without a file name is answered like a request without a file, and a file
  under another field than \<open>orderFile\<close> with status 500; neither is stored.
\<close>

lemma nameless_upload:
  assumes "originalname part = []"
  shows "upload_endpoint H now rnd fs (Some part) =
     (\<lparr>status = 400, body = ErrorBody NoFileUploaded None\<rparr>, fs)"
  using assms by (simp add: upload_endpoint_def multer_single_def post_upload_def)

lemma other_field_upload:
  assumes "originalname part \<noteq> []" "fieldname part \<noteq> js ''orderFile''"
  shows "upload_endpoint H now rnd fs (Some part) =
     (\<lparr>status = 500,
       body = ErrorBody (Thrown (MulterError (js ''LIMIT_UNEXPECTED_FILE''))) None\<rparr>, fs)"
  using assms
  by (simp add: upload_endpoint_def multer_single_def error_handler_def unexpected_file_code)

text \<open>
  An upload that carries a named file is answered with status 200 or 500, whatever the
  size and the type of the file, and no upload is answered with the size message; a
  stored file with any extension other than \<open>.csv\<close> goes to the workbook reader, whose
  outcome decides the answer.
\<close>

lemma upload_status:
  assumes "originalname part \<noteq> []"
  shows "status (fst (upload_endpoint H now rnd fs (Some part))) = 200
   \<or> status (fst (upload_endpoint H now rnd fs (Some part))) = 500"
proof (cases "fieldname part = js ''orderFile''")
  case False
  with assms show ?thesis by (simp add: other_field_upload)
next
  case field: True
  show ?thesis
  proof (cases "writeFileSync fs (path_join H [uploadsDir H, storage_filename H now rnd part])
      (content part)")
    case (Inl error)
    then obtain code where
      "error = FsError code (path_join H [uploadsDir H, storage_filename H now rnd part])"
      by (auto dest: writeFileSync_error)
    with Inl assms field show ?thesis
      by (simp add: upload_endpoint_def multer_single_def router_upload_def store_upload_def
          Let_def error_handler_def)
  next
    case (Inr fs')
    show ?thesis
      by (simp add: upload_endpoint_def router_upload_stores [OF assms field Inr] post_upload_def
          split: sum.splits prod.splits)
  qed
qed

lemma upload_never_too_large:
  "body (fst (upload_endpoint H now rnd fs part)) \<noteq> ErrorBody FileTooLarge details"
proof (cases "multer_single H router_upload (js ''orderFile'') now rnd fs part")
  case (Next error)
  then obtain sent where part: "part = Some sent"
    by (cases part) (simp_all add: multer_single_def)
  from router_upload_never_refuses [OF Next [unfolded part]]
  have "error \<noteq> MulterError (js ''LIMIT_FILE_SIZE'')"
    using unexpected_file_code by (auto dest: writeFileSync_error)
  with Next show ?thesis
    by (auto simp: upload_endpoint_def error_handler_def split: js_error.splits)
next
  case (Proceed fs' req_file)
  then show ?thesis
    by (auto simp: upload_endpoint_def post_upload_def split: option.splits sum.splits prod.splits)
qed

lemma other_upload_is_parsed:
  assumes named: "originalname part \<noteq> []"
    and field: "fieldname part = js ''orderFile''"
    and ext: "toLowerCase H (path_extname H (originalname part)) \<noteq> js ''.csv''"
    and stored: "writeFileSync fs (path_join H [uploadsDir H, storage_filename H now rnd part])
                   (content part) = Inr fs'"
  shows "fst (upload_endpoint H now rnd fs (Some part)) =
     (case xlsx_readFile H (content part) of
        Inl error \<Rightarrow> \<lparr>status = 500, body = ErrorBody FileProcessingFailed (Some error)\<rparr>
      | Inr worksheet \<Rightarrow>
          \<lparr>status = 200,
           body = UploadBody
             \<lparr>success = True, fileName = originalname part,
              fileId = storage_filename H now rnd part,
              headers = fst (excel_preview (numberText H) worksheet),
              previewData = snd (excel_preview (numberText H) worksheet),
              totalRows = length (snd (excel_preview (numberText H) worksheet)),
              validation = validateOrderData H (snd (excel_preview (numberText H) worksheet))
                (fst (excel_preview (numberText H) worksheet)),
              message = UploadedRows (length (snd (excel_preview (numberText H) worksheet)))\<rparr>\<rparr>)"
  using ext readFileSync_written [OF stored]
  by (simp add: upload_endpoint_def router_upload_stores [OF named field stored] post_upload_def
      read_preview_def split: sum.splits prod.splits)

lemma server_upload_rejects_pdf:
  "multer_single sample_host (server_upload sample_host) (js ''orderFile'') 1 2 sample_disk
     (Some pdf_upload) = Next UnsupportedFileType"
  by (simp add: multer_single_def server_upload_def server_fileFilter_def allowedTypes_def
      sample_defs pdf_upload_def)

lemma server_upload_rejects_big:
  "multer_single sample_host (server_upload sample_host) (js ''orderFile'') 1 2 sample_disk
     (Some big_upload) = Next (MulterError (js ''LIMIT_FILE_SIZE''))"
  by (simp add: multer_single_def server_upload_def server_fileFilter_def allowedTypes_def
      store_upload_def sample_defs big_upload_def)

lemma error_handler_too_large:
  "error_handler (MulterError (js ''LIMIT_FILE_SIZE'')) =
     \<lparr>status = 400, body = ErrorBody FileTooLarge None\<rparr>"
  by (simp add: error_handler_def)

text \<open>
  C4, where the route departs from it: a file with an extension other than \<open>.xlsx\<close>,
  \<open>.xls\<close>, \<open>.csv\<close> should be rejected as an unsupported type before its content is
  parsed. Uploading \<open>order.pdf\<close> stores the file in the uploads directory and hands its
  content to the workbook reader; the answer is the handler's status 500 with the
  reader's error as details.
\<close>

theorem pdf_upload_is_parsed:
  "upload_endpoint sample_host 1 2 sample_disk (Some pdf_upload) =
     (\<lparr>status = 500,
       body = ErrorBody FileProcessingFailed (Some (LibraryError (js ''not a workbook'')))\<rparr>,
      sample_disk\<lparr>files := [js ''/tmp/uploads/orderFile-1-2.pdf'' \<mapsto> js ''%PDF-1.4'']\<rparr>)"
  by (simp add: route_defs sample_defs pdf_upload_def)

text \<open>
  C5, where the route departs from it: a file larger than 10 MiB should be rejected
  with the size message and a 400-class status. Uploading \<open>big.csv\<close> of 3 + 11 MiB
  bytes is answered with status 200 and its preview.
\<close>

theorem big_upload_is_accepted:
  "10 * 1024 * 1024 < byte_length big_upload \<and>
   fst (upload_endpoint sample_host 1 2 sample_disk (Some big_upload)) =
     \<lparr>status = 200,
      body = UploadBody
        \<lparr>success = True, fileName = js ''big.csv'', fileId = js ''orderFile-1-2.csv'',
         headers = [js ''id''],
         previewData = [[js ''id'' \<mapsto> replicate (11 * 1024 * 1024) 0x31]],
         totalRows = 1, validation = (), message = UploadedRows 1\<rparr>\<rparr>"
proof -
  have size: "10 * 1024 * 1024 < byte_length big_upload"
    by (simp add: big_upload_def)
  have ext: "toLowerCase sample_host (path_extname sample_host (originalname big_upload))
      = js ''.csv''"
    by (simp add: sample_defs big_upload_def)
  have name: "storage_filename sample_host 1 2 big_upload = js ''orderFile-1-2.csv''"
    by (simp add: storage_filename_def sample_defs big_upload_def)
  have "csv_preview (js ''id'' @ [0x0A] @ replicate (11 * 1024 * 1024) 0x31) =
      ([js ''id''], [[js ''id'' \<mapsto> replicate (11 * 1024 * 1024) 0x31]])"
    by (rule csv_preview_long_line) simp
  then have preview: "csv_preview (content big_upload) =
      ([js ''id''], [[js ''id'' \<mapsto> replicate (11 * 1024 * 1024) 0x31]])"
    by (simp only: big_upload_def upload_part.simps)
  have named: "originalname big_upload \<noteq> []" and field: "fieldname big_upload = js ''orderFile''"
    by (simp_all add: big_upload_def js_def)
  have target: "path_join sample_host
      [uploadsDir sample_host, storage_filename sample_host 1 2 big_upload]
      = js ''/tmp/uploads/'' @ storage_filename sample_host 1 2 big_upload"
    by (simp only: name) (simp add: uploadsDir_def sample_defs Let_def)
  from csv_upload_preview [OF named field ext sample_disk_stores [OF target] preview] name
  have "fst (upload_endpoint sample_host 1 2 sample_disk (Some big_upload)) =
     \<lparr>status = 200,
      body = UploadBody
        \<lparr>success = True, fileName = js ''big.csv'', fileId = js ''orderFile-1-2.csv'',
         headers = [js ''id''],
         previewData = [[js ''id'' \<mapsto> replicate (11 * 1024 * 1024) 0x31]],
         totalRows = 1, validation = (), message = UploadedRows 1\<rparr>\<rparr>"
    by (simp add: big_upload_def)
  with size show ?thesis by (rule conjI)
qed

section \<open>The Excel header row\<close>

text \<open>
  The headers come from the cells that \<open>eachCell\<close> visits. It visits no blank cell and
  no column twice; a visited cell with a falsy value (0, \<open>false\<close>, the empty string) gets
  the label of its column, and the labels of two such cells differ.
\<close>

lemma column_label_inject: "column_label a = column_label b \<Longrightarrow> a = b"
  by (simp add: column_label_def decimal_inject)

lemma eachCell_skips_blank: "(CellNull, colNumber) \<notin> set (eachCell row)"
  by (auto simp: eachCell_def)

lemma eachCell_columns: "distinct (map snd (eachCell row))"
proof -
  have "distinct (map snd (zip row [1..<Suc (length row)]))"
    by simp
  then show ?thesis
    unfolding eachCell_def by (rule distinct_map_filter)
qed

lemma excel_headers_nth:
  "i < length (eachCell row) \<Longrightarrow>
   excel_headers nt row ! i =
     (if truthy (fst (eachCell row ! i)) then cell_toString nt (fst (eachCell row ! i))
      else column_label (snd (eachCell row ! i)))"
  by (simp add: excel_headers_def case_prod_beta)

lemma excel_labels_differ:
  assumes "i < j" "j < length (eachCell row)"
    and "\<not> truthy (fst (eachCell row ! i))" "\<not> truthy (fst (eachCell row ! j))"
  shows "excel_headers nt row ! i \<noteq> excel_headers nt row ! j"
proof -
  from assms(1,2) eachCell_columns [of row]
  have "snd (eachCell row ! i) \<noteq> snd (eachCell row ! j)"
    by (simp add: distinct_conv_nth)
  with assms show ?thesis
    by (auto simp: excel_headers_nth dest: column_label_inject)
qed

text \<open>
  C6, where the route departs from it: a blank header cell at column \<open>k\<close> should
  appear in the header list as a label that incorporates \<open>k\<close>. Uploading a workbook
  whose first row is \<open>id, (blank), qty\<close> and whose second row is \<open>A1, (blank), 7\<close> is
  answered with the headers \<open>id\<close> and \<open>qty\<close>, without a label for column 2, and with a
  preview row that has the blank cell of column 2 under \<open>qty\<close>.
\<close>

theorem blank_header_is_skipped:
  "fst (upload_endpoint workbook_host 1 2 sample_disk (Some xlsx_upload)) =
     \<lparr>status = 200,
      body = UploadBody
        \<lparr>success = True, fileName = js ''orders.xlsx'', fileId = js ''orderFile-1-2.xlsx'',
         headers = [js ''id'', js ''qty''],
         previewData = [[js ''id'' \<mapsto> js ''A1'', js ''qty'' \<mapsto> []]],
         totalRows = 1, validation = (), message = UploadedRows 1\<rparr>\<rparr>"
  by (simp add: route_defs sample_defs workbook_host_def xlsx_upload_def blank_header_sheet_def
      excel_preview_def excel_headers_def excel_row_def eachCell_def getRow_def getCell_def
      rowCount_def fill_row_def set_prop_def upt_rec)

section \<open>Download\<close>

text \<open>The disk after the sample upload holds the uploaded file and nothing else.\<close>

lemma uploaded_disk_eq:
  "uploaded_disk =
     sample_disk\<lparr>files := [js ''/tmp/uploads/orderFile-1-2.csv'' \<mapsto>
       js ''id,qty\<newline>1,5\<newline>2,7'']\<rparr>"
  by (simp add: uploaded_disk_def route_defs sample_defs orders_upload_def)

text \<open>
  A download is answered with status 200 exactly for a regular file of the uploads
  directory that the dot-file policy does not refuse.
\<close>

lemma download_status:
  "(status (get_download H fs name) = 200) =
     (path_join H [uploadsDir H, name] \<in> dom (files fs)
      \<and> \<not> send_refuses H (path_join H [uploadsDir H, name]))"
  by (auto simp: get_download_def existsSync_def Let_def split: option.splits)

lemma download_dot_file:
  assumes "files fs (path_join H [uploadsDir H, name]) = Some data"
    and "send_refuses H (path_join H [uploadsDir H, name])"
  shows "get_download H fs name = \<lparr>status = 500, body = ErrorBody DownloadFailed None\<rparr>"
  using assms by (auto simp: get_download_def existsSync_def Let_def)




section \<open>Generating without a mapping record\<close>

text \<open>
  A mapping name without a string form, such as the object \<open>{"toString": 1}\<close>, also
  inside an array: the template literal throws, and a generate request for an uploaded
  file is answered with status 500 without a call of the converter.
\<close>

lemma to_string_object:
  "to_string nt (JObj [(js ''toString'', JNum 1)]) = Inl TypeError"
  "to_string nt (JArr [JStr (js ''a''), JObj [(js ''toString'', JNum 1)]]) = Inl TypeError"
  "to_string nt (JObj [(js ''valueOf'', JNum 1)]) = Inr (js ''[object Object]'')"
  "to_string nt (JArr [JStr (js ''a''), JNull, JStr (js ''b'')]) = Inr (js ''a,,b'')"
  by (simp_all add: js_def)

lemma generate_without_name:
  assumes unnamed: "mapping_file H (get_prop req_body (js ''mappingId'')) = Inl error"
    and named: "get_prop req_body (js ''fileId'') = JStr uploadedName"
    and uploaded: "existsSync fs (path_join H [uploadsDir H, uploadedName])"
  shows "post_generate H fs req_body =
     (\<lparr>status = 500, body = ErrorBody OrderGenerationFailed (Some error)\<rparr>, fs)"
proof -
  have "req_body \<noteq> JUndefined" "req_body \<noteq> JNull"
    using named by auto
  then show ?thesis
    using unnamed named uploaded
    by (simp add: post_generate_def load_mapping_def generate_reply_def)
qed

text \<open>
  C3 as amended: for every mapping name for which no record exists, loading the
  mapping as the generate operation does gives the empty object \<open>{}\<close> and no error, and
  the operation proceeds: for a request that names an uploaded file, its answer is the
  converter's outcome for that file, the template and \<open>{}\<close>. The mapping name is a
  value with a string form, from which the template literal makes the file name of the
  record.
\<close>

theorem generate_without_mapping:
  assumes literal: "mapping_file H (get_prop req_body (js ''mappingId'')) = Inr file"
    and absent: "\<not> existsSync fs (mapping_path H file)"
    and named: "get_prop req_body (js ''fileId'') = JStr uploadedName"
    and uploaded: "existsSync fs (path_join H [uploadsDir H, uploadedName])"
  shows "load_mapping H fs (get_prop req_body (js ''mappingId'')) = Inr (JObj [])
     \<and> post_generate H fs req_body =
         generate_reply
           (convertToStandardFormat H fs (path_join H [uploadsDir H, uploadedName])
              (templatePath H) (JObj []))"
proof -
  have loaded: "load_mapping H fs (get_prop req_body (js ''mappingId'')) = Inr (JObj [])"
    using literal absent by (simp add: load_mapping_def)
  have "req_body \<noteq> JUndefined" "req_body \<noteq> JNull"
    using named by auto
  then show ?thesis
    using loaded named uploaded by (simp add: post_generate_def)
qed

lemma missing_mapping_file:
  "mapping_file sample_host (JStr (js ''missing'')) = Inr (js ''missing.json'')"
  by (simp add: mapping_file_def js_def)

lemma missing_mapping_absent:
  "\<not> existsSync uploaded_disk (mapping_path sample_host (js ''missing.json''))"
  by (simp add: uploaded_disk_eq existsSync_def mapping_path_def sample_defs Let_def)

theorem generate_without_mapping_witness:
  "mapping_file sample_host (get_prop generate_request (js ''mappingId''))
       = Inr (js ''missing.json'')
   \<and> \<not> existsSync uploaded_disk (mapping_path sample_host (js ''missing.json''))
   \<and> get_prop generate_request (js ''fileId'') = JStr (js ''orderFile-1-2.csv'')
   \<and> existsSync uploaded_disk
       (path_join sample_host [uploadsDir sample_host, js ''orderFile-1-2.csv''])
   \<and> load_mapping sample_host uploaded_disk (get_prop generate_request (js ''mappingId''))
       = Inr (JObj [])
   \<and> post_generate sample_host uploaded_disk generate_request =
       generate_reply
         (sample_convert uploaded_disk (js ''/tmp/uploads/orderFile-1-2.csv'')
            (js ''/app/file/porder_template.xlsx'') (JObj []))"
proof -
  have id: "get_prop generate_request (js ''mappingId'') = JStr (js ''missing'')"
    by (simp add: generate_request_def js_def)
  have literal: "mapping_file sample_host (get_prop generate_request (js ''mappingId''))
      = Inr (js ''missing.json'')"
    by (simp add: id missing_mapping_file)
  have named: "get_prop generate_request (js ''fileId'') = JStr (js ''orderFile-1-2.csv'')"
    by (simp add: generate_request_def js_def)
  have uploaded: "existsSync uploaded_disk
      (path_join sample_host [uploadsDir sample_host, js ''orderFile-1-2.csv''])"
    by (simp add: uploaded_disk_eq existsSync_def uploadsDir_def sample_defs Let_def)
  have paths: "path_join sample_host [uploadsDir sample_host, js ''orderFile-1-2.csv'']
      = js ''/tmp/uploads/orderFile-1-2.csv''"
    "convertToStandardFormat sample_host = sample_convert"
    by (simp_all add: uploadsDir_def sample_defs Let_def)
  from generate_without_mapping [OF literal missing_mapping_absent named uploaded] paths
  have "load_mapping sample_host uploaded_disk (get_prop generate_request (js ''mappingId''))
       = Inr (JObj [])
   \<and> post_generate sample_host uploaded_disk generate_request =
       generate_reply
         (sample_convert uploaded_disk (js ''/tmp/uploads/orderFile-1-2.csv'')
            (js ''/app/file/porder_template.xlsx'') (JObj []))"
    by (simp add: sample_dirs)
  with literal missing_mapping_absent named uploaded show ?thesis by simp
qed

text \<open>
  C3 as stated fails: with an uploaded file and no record named \<open>missing\<close>, loading
  that mapping gives \<open>{}\<close>, not a not-found error, and the generate request is answered
  with status 200.
\<close>

theorem generate_missing_mapping:
  "\<not> existsSync uploaded_disk (mapping_path sample_host (js ''missing.json''))
   \<and> load_mapping sample_host uploaded_disk (JStr (js ''missing'')) = Inr (JObj [])
   \<and> fst (post_generate sample_host uploaded_disk generate_request) =
       \<lparr>status = 200,
        body = GenerateBody
          \<lparr>generatedFile = js ''generated.xlsx'',
           downloadUrl = js ''/api/orders/download/generated.xlsx'',
           generatedRows = 0, generatedErrors = []\<rparr>\<rparr>"
proof -
  have absent: "\<not> existsSync uploaded_disk (mapping_path sample_host (js ''missing.json''))"
    by (simp add: uploaded_disk_eq existsSync_def mapping_path_def sample_defs Let_def)
  have loaded: "load_mapping sample_host uploaded_disk (JStr (js ''missing'')) = Inr (JObj [])"
    using absent by (simp add: load_mapping_def mapping_file_def js_def)
  have id: "get_prop generate_request (js ''mappingId'') = JStr (js ''missing'')"
    and named: "get_prop generate_request (js ''fileId'') = JStr (js ''orderFile-1-2.csv'')"
    by (simp_all add: generate_request_def js_def)
  have uploaded: "existsSync uploaded_disk
      (path_join sample_host [uploadsDir sample_host, js ''orderFile-1-2.csv''])"
    by (simp add: uploaded_disk_eq existsSync_def uploadsDir_def sample_defs Let_def)
  have "generate_request \<noteq> JUndefined" "generate_request \<noteq> JNull"
    by (simp_all add: generate_request_def)
  then have "fst (post_generate sample_host uploaded_disk generate_request) =
       \<lparr>status = 200,
        body = GenerateBody
          \<lparr>generatedFile = js ''generated.xlsx'',
           downloadUrl = js ''/api/orders/download/generated.xlsx'',
           generatedRows = 0, generatedErrors = []\<rparr>\<rparr>"
    using uploaded
    by (simp add: post_generate_def named id loaded generate_reply_def)
      (simp add: sample_host_def sample_convert_def js_def)
  with absent loaded show ?thesis by simp
qed

section \<open>Mapping store\<close>








text \<open>
  A save under a name without a string form is answered with status 500 and writes no
  record; the directory of the records can have been created.
\<close>

lemma save_without_name:
  assumes "mapping_file H (get_prop req_body (js ''mappingName'')) = Inl error"
  shows "status (fst (post_mapping H createdAt fs req_body)) = 500
     \<and> files (snd (post_mapping H createdAt fs req_body)) = files fs"
  using assms
  by (auto simp: post_mapping_def save_mapping_def Let_def mkdirSync_def
      split: sum.splits if_splits)










section \<open>Converter: one row without a required field\<close>

lemma copy_fields_present:
  "\<forall>source \<in> fst ` set rules. row source \<noteq> None \<Longrightarrow>
   \<exists>res. copy_fields rules row out = Inr res"
  by (induction rules row out rule: copy_fields.induct) (auto split: option.splits)

lemma copy_fields_missing:
  "\<exists>source \<in> fst ` set rules. row source = None \<Longrightarrow>
   \<exists>reason. copy_fields rules row out = Inl reason \<and> reason \<in> fst ` set rules
     \<and> row reason = None"
  by (induction rules row out rule: copy_fields.induct) (auto split: option.splits)

lemma convert_rows_complete:
  "\<forall>row \<in> set rows. \<forall>source \<in> fst ` set rules. row source \<noteq> None \<Longrightarrow>
   convert_rows rules k rows =
     (map (\<lambda>row. projr (copy_fields rules row Map.empty)) rows, length rows, [])"
proof (induction rows arbitrary: k)
  case Nil
  then show ?case by simp
next
  case (Cons row rows)
  then obtain res where "copy_fields rules row Map.empty = Inr res"
    using copy_fields_present [of rules row Map.empty] by auto
  with Cons show ?case by simp
qed

lemma convert_rows_one_bad:
  assumes "i < length rows"
    and "copy_fields rules (rows ! i) Map.empty = Inl reason"
    and "\<forall>j < length rows. j \<noteq> i \<longrightarrow>
          (\<forall>source \<in> fst ` set rules. (rows ! j) source \<noteq> None)"
  shows "convert_rows rules k rows =
     (map (\<lambda>row. projr (copy_fields rules row Map.empty)) (take i rows @ drop (Suc i) rows),
      length rows - 1, [(k + i, reason)])"
  using assms
proof (induction rows arbitrary: i k)
  case Nil
  then show ?case by simp
next
  case (Cons row rows)
  show ?case
  proof (cases i)
    case 0
    have "\<forall>r \<in> set rows. \<forall>source \<in> fst ` set rules. r source \<noteq> None"
    proof
      fix r assume "r \<in> set rows"
      then obtain j where "j < length rows" "rows ! j = r" by (auto simp: in_set_conv_nth)
      with Cons.prems(3) [rule_format, of "Suc j"] 0
      show "\<forall>source \<in> fst ` set rules. r source \<noteq> None"
        by auto
    qed
    from convert_rows_complete [OF this] Cons.prems(2) 0 show ?thesis by simp
  next
    case (Suc i')
    from Cons.prems(3) [rule_format, of 0] Suc
    have "\<forall>source \<in> fst ` set rules. row source \<noteq> None" by simp
    then obtain res where res: "copy_fields rules row Map.empty = Inr res"
      using copy_fields_present [of rules row Map.empty] by auto
    have "\<forall>j < length rows. j \<noteq> i' \<longrightarrow>
        (\<forall>source \<in> fst ` set rules. (rows ! j) source \<noteq> None)"
    proof (intro allI impI)
      fix j assume "j < length rows" "j \<noteq> i'"
      with Cons.prems(3) [rule_format, of "Suc j"] Suc
      show "\<forall>source \<in> fst ` set rules. (rows ! j) source \<noteq> None"
        by simp
    qed
    with Cons.IH [of i' "Suc k"] Cons.prems Suc
    have "convert_rows rules (Suc k) rows =
     (map (\<lambda>row. projr (copy_fields rules row Map.empty)) (take i' rows @ drop (Suc i') rows),
      length rows - 1, [(Suc k + i', reason)])" by simp
    with res Suc Cons.prems(1) show ?thesis by simp
  qed
qed

lemma list_all2_map_same:
  "(\<And>x. x \<in> set xs \<Longrightarrow> P x (f x)) \<Longrightarrow> list_all2 P xs (map f xs)"
  by (induction xs) auto

lemma others_nth:
  assumes "x \<in> set (take i rows @ drop (Suc i) rows)"
  shows "\<exists>j < length rows. j \<noteq> i \<and> rows ! j = x"
proof -
  from assms consider "x \<in> set (take i rows)" | "x \<in> set (drop (Suc i) rows)" by auto
  then show ?thesis
  proof cases
    case 1
    then obtain j where "j < length (take i rows)" "take i rows ! j = x"
      by (auto simp: in_set_conv_nth)
    then have "j < length rows \<and> j \<noteq> i \<and> rows ! j = x" by simp
    then show ?thesis by blast
  next
    case 2
    then obtain j where "j < length (drop (Suc i) rows)" "drop (Suc i) rows ! j = x"
      by (auto simp: in_set_conv_nth)
    then have "Suc i + j < length rows \<and> Suc i + j \<noteq> i \<and> rows ! (Suc i + j) = x" by simp
    then show ?thesis by blast
  qed
qed

text \<open>
  C8: when exactly one row of the source, the row at index \<open>i\<close> (1-based: \<open>i + 1\<close>),
  lacks a source field that the rules require, the conversion result has
  \<open>processedRows = totalRows - 1\<close>, its error list is the one entry for row \<open>i + 1\<close>,
  with a required field that the row lacks as the reason, and every other row is
  written, in order, with its fields copied.
\<close>

theorem convert_one_bad_row:
  assumes index: "i < length rows"
    and bad: "\<exists>source \<in> fst ` set rules. (rows ! i) source = None"
    and others: "\<forall>j < length rows. j \<noteq> i \<longrightarrow>
          (\<forall>source \<in> fst ` set rules. (rows ! j) source \<noteq> None)"
  shows "processedRows (snd (convert rules rows outputName)) = length rows - 1
     \<and> (\<exists>reason. errors (snd (convert rules rows outputName)) = [(i + 1, reason)]
           \<and> reason \<in> fst ` set rules \<and> (rows ! i) reason = None)
     \<and> list_all2 (\<lambda>row out. copy_fields rules row Map.empty = Inr out)
          (take i rows @ drop (Suc i) rows) (fst (convert rules rows outputName))"
proof -
  let ?rest = "take i rows @ drop (Suc i) rows"
  let ?out = "\<lambda>row. projr (copy_fields rules row Map.empty)"
  from copy_fields_missing [OF bad, of Map.empty] obtain reason where
    reason: "copy_fields rules (rows ! i) Map.empty = Inl reason"
      "reason \<in> fst ` set rules" "(rows ! i) reason = None"
    by auto
  have run: "convert_rows rules 1 rows = (map ?out ?rest, length rows - 1, [(1 + i, reason)])"
    by (rule convert_rows_one_bad [OF index reason(1) others])
  have mapped: "copy_fields rules row Map.empty = Inr (?out row)" if "row \<in> set ?rest" for row
  proof -
    from others_nth [OF that] others have "\<forall>source \<in> fst ` set rules. row source \<noteq> None"
      by blast
    from copy_fields_present [OF this, of Map.empty] show ?thesis
      by auto
  qed
  have "list_all2 (\<lambda>row out. copy_fields rules row Map.empty = Inr out) ?rest (map ?out ?rest)"
    by (rule list_all2_map_same) (rule mapped)
  with run reason show ?thesis
    by (simp add: convert_def)
qed

theorem convert_one_bad_row_witness:
  "(1::nat) < length sample_rows
   \<and> (sample_rows ! 1) (js ''id'') = None
   \<and> (sample_rows ! 0) (js ''id'') = Some (js ''1'')
   \<and> (sample_rows ! 2) (js ''id'') = Some (js ''3'')
   \<and> processedRows (snd (convert sample_rules sample_rows (js ''out.xlsx''))) = 2
   \<and> errors (snd (convert sample_rules sample_rows (js ''out.xlsx''))) = [(2, js ''id'')]
   \<and> fst (convert sample_rules sample_rows (js ''out.xlsx'')) =
       [[js ''code'' \<mapsto> js ''1''], [js ''code'' \<mapsto> js ''3'']]"
proof -
  have index: "(1::nat) < length sample_rows"
    by (simp add: sample_rows_def)
  have bad: "\<exists>source \<in> fst ` set sample_rules. (sample_rows ! 1) source = None"
    by (simp add: sample_rules_def sample_rows_def js_def)
  have others: "\<forall>j < length sample_rows. j \<noteq> 1 \<longrightarrow>
      (\<forall>source \<in> fst ` set sample_rules. (sample_rows ! j) source \<noteq> None)"
    by (simp add: sample_rules_def sample_rows_def js_def less_Suc_eq numeral_3_eq_3)
  have cells: "(sample_rows ! 1) (js ''id'') = None"
    "(sample_rows ! 0) (js ''id'') = Some (js ''1'')"
    "(sample_rows ! 2) (js ''id'') = Some (js ''3'')"
    by (simp_all add: sample_rows_def js_def)
  from convert_one_bad_row [OF index bad others, of "js ''out.xlsx''"]
  have count: "processedRows (snd (convert sample_rules sample_rows (js ''out.xlsx''))) = 2"
    by (simp add: sample_rows_def)
  have errs: "errors (snd (convert sample_rules sample_rows (js ''out.xlsx'')))
      = [(2, js ''id'')]"
    by (simp add: convert_def sample_rules_def sample_rows_def js_def)
  have out: "fst (convert sample_rules sample_rows (js ''out.xlsx'')) =
       [[js ''code'' \<mapsto> js ''1''], [js ''code'' \<mapsto> js ''3'']]"
    by (simp add: convert_def sample_rules_def sample_rows_def js_def)
  from index cells count errs out show ?thesis by simp
qed

end
